theory Spec2Isabelle
  imports Complex_Main
begin

section \<open>Python values\<close>

text \<open>
  The values the fields of a MetaNode hold and the attribute store returns.
  \<^item> \<open>VStr\<close> is a byte string (Python 2 \<open>str\<close>); a \<open>unicode\<close> string is held as its UTF-8
    bytes.
  \<^item> \<open>VFloat\<close> is an IEEE double: \<open>Finite r\<close> for the rational \<open>r\<close> it denotes, or an
    infinity or NaN; the sign of zero is not kept.
  \<^item> \<open>VJsonText v\<close> is the string \<open>json.dumps(v)\<close>. The characters of that text are not
    computed: the text is kept as the value it encodes, and \<open>json.loads\<close> reads it back
    (the library's round trip is taken from the library). It is a string that equals
    no \<open>VStr\<close> and that cannot be iterated here.
  \<^item> \<open>VReprText v\<close> is the string \<open>str(v)\<close> of a float, list, dict or matrix, likewise
    without its characters.
  \<^item> \<open>VDict\<close> is a dict with string keys, in iteration order.
  \<^item> \<open>VMatrix\<close> is an \<open>om2.MMatrix\<close> with its sixteen entries, \<open>VRef a\<close> the MetaNode
    instance at address \<open>a\<close>.
\<close>

datatype pyfloat = Finite rat | PosInf | NegInf | NaN

datatype pyval =
    VNone
  | VBool bool
  | VInt int
  | VFloat pyfloat
  | VStr string
  | VJsonText pyval
  | VReprText pyval
  | VList "pyval list"
  | VDict "(string \<times> pyval) list"
  | VMatrix "pyfloat list"
  | VRef nat

datatype pyerr =
  TypeError | ValueError | KeyError | AttributeError | RuntimeError | OverflowError | Exception

subsection \<open>Floats\<close>

text \<open>
  \<open>to_double r\<close> is the double nearest to the rational \<open>r\<close>, ties going to the even
  mantissa: 53 bits above the exponent \<open>-1022\<close>, multiples of \<open>2^-1074\<close> below it, an
  infinity from \<open>2^1024 - 2^970\<close> on. \<open>log2_floor\<close> searches the binary exponent; its first
  argument bounds the search, beyond the range of the doubles.
\<close>

fun log2_floor :: "nat \<Rightarrow> rat \<Rightarrow> int" where
  "log2_floor 0 a = 0"
| "log2_floor (Suc k) a =
     (if 2 \<le> a then log2_floor k (a / 2) + 1
      else if a < 1 then log2_floor k (a * 2) - 1
      else 0)"

fun log10_floor :: "nat \<Rightarrow> rat \<Rightarrow> int" where
  "log10_floor 0 a = 0"
| "log10_floor (Suc k) a =
     (if 10 \<le> a then log10_floor k (a / 10) + 1
      else if a < 1 then log10_floor k (a * 10) - 1
      else 0)"

definition pow2 :: "int \<Rightarrow> rat" where
  "pow2 e = (if 0 \<le> e then 2 ^ nat e else 1 / 2 ^ nat (- e))"

definition pow10 :: "int \<Rightarrow> rat" where
  "pow10 e = (if 0 \<le> e then 10 ^ nat e else 1 / 10 ^ nat (- e))"

definition round_half_even :: "rat \<Rightarrow> int" where
  "round_half_even x =
     (let f = \<lfloor>x\<rfloor>; d = x - of_int f
      in if d < 1 / 2 then f else if 1 / 2 < d then f + 1 else if even f then f else f + 1)"

definition to_double :: "rat \<Rightarrow> pyfloat" where
  "to_double r =
     (if r = 0 then Finite 0
      else
        let a = \<bar>r\<bar>;
            e = max (log2_floor 2200 a) (- 1022);
            q = pow2 (e - 52);
            m = round_half_even (a / q)
        in if 1024 \<le> e \<or> (e = 1023 \<and> m = 2 ^ 53) then (if 0 < r then PosInf else NegInf)
           else Finite ((if 0 < r then 1 else - 1) * of_int m * q))"

text \<open>\<open>float(str(f))\<close>: Python 2 prints a float with twelve significant digits (\<open>%.12g\<close>).\<close>

definition str_round :: "pyfloat \<Rightarrow> pyfloat" where
  "str_round f =
     (case f of
        Finite r \<Rightarrow>
          if r = 0 then Finite 0
          else
            let a = \<bar>r\<bar>;
                q = pow10 (log10_floor 400 a - 11);
                m = round_half_even (a / q)
            in to_double ((if 0 < r then 1 else - 1) * of_int m * q)
      | _ \<Rightarrow> f)"

subsection \<open>Builtins: \<open>int\<close>, \<open>float\<close>, \<open>bool\<close>, \<open>str\<close>, iteration, \<open>dict\<close> access\<close>

definition is_space :: "char \<Rightarrow> bool" where
  "is_space c = (c \<in> set [CHR '' '', CHR 0x09, CHR 0x0A, CHR 0x0B, CHR 0x0C, CHR 0x0D])"

definition strip :: "string \<Rightarrow> string" where
  "strip s = rev (dropWhile is_space (rev (dropWhile is_space s)))"

definition digit_val :: "char \<Rightarrow> nat option" where
  "digit_val c = (let n = of_char c :: nat in if 48 \<le> n \<and> n \<le> 57 then Some (n - 48) else None)"

definition is_digit :: "char \<Rightarrow> bool" where
  "is_digit c = (digit_val c \<noteq> None)"

definition lower :: "char \<Rightarrow> char" where
  "lower c = (let n = of_char c :: nat in if 65 \<le> n \<and> n \<le> 90 then char_of (n + 32) else c)"

fun digits_val :: "nat \<Rightarrow> string \<Rightarrow> nat option" where
  "digits_val acc [] = Some acc"
| "digits_val acc (c # cs) =
     (case digit_val c of None \<Rightarrow> None | Some d \<Rightarrow> digits_val (10 * acc + d) cs)"

text \<open>\<open>int(s)\<close> of a string: surrounding blanks, an optional sign, decimal digits.\<close>

definition int_of_string :: "string \<Rightarrow> int option" where
  "int_of_string s =
     (case strip s of
        [] \<Rightarrow> None
      | c # cs \<Rightarrow>
          if c = CHR ''-'' then (if cs = [] then None else map_option (\<lambda>n. - int n) (digits_val 0 cs))
          else if c = CHR ''+'' then (if cs = [] then None else map_option int (digits_val 0 cs))
          else map_option int (digits_val 0 (c # cs)))"

text \<open>
  \<open>float(s)\<close> of a string: surrounding blanks, an optional sign, then \<open>inf\<close>, \<open>infinity\<close>
  or \<open>nan\<close> in any case, or a decimal literal: digits with an optional point, at least one
  digit, and an optional exponent.
\<close>

definition exponent_of_string :: "string \<Rightarrow> int option" where
  "exponent_of_string s =
     (case s of
        [] \<Rightarrow> None
      | c # cs \<Rightarrow>
          if c = CHR ''-'' then (if cs = [] then None else map_option (\<lambda>n. - int n) (digits_val 0 cs))
          else if c = CHR ''+'' then (if cs = [] then None else map_option int (digits_val 0 cs))
          else map_option int (digits_val 0 (c # cs)))"

definition decimal_of_string :: "string \<Rightarrow> rat option" where
  "decimal_of_string s =
     (let ip = takeWhile is_digit s;
          r1 = dropWhile is_digit s;
          has_point = (r1 \<noteq> [] \<and> hd r1 = CHR ''.'');
          fp = (if has_point then takeWhile is_digit (tl r1) else []);
          r2 = (if has_point then dropWhile is_digit (tl r1) else r1)
      in if ip = [] \<and> fp = [] then None
         else
           (case digits_val 0 (ip @ fp) of
              None \<Rightarrow> None
            | Some m \<Rightarrow>
                (case r2 of
                   [] \<Rightarrow> Some (of_nat m * pow10 (- int (length fp)))
                 | c # cs \<Rightarrow>
                     if lower c = CHR ''e'' then
                       (case exponent_of_string cs of
                          None \<Rightarrow> None
                        | Some e \<Rightarrow> Some (of_nat m * pow10 (e - int (length fp))))
                     else None)))"

definition float_of_string :: "string \<Rightarrow> pyfloat option" where
  "float_of_string s0 =
     (let s = strip s0;
          neg = (s \<noteq> [] \<and> hd s = CHR ''-'');
          body = (if s \<noteq> [] \<and> (hd s = CHR ''-'' \<or> hd s = CHR ''+'') then tl s else s);
          word = map lower body
      in if word = ''inf'' \<or> word = ''infinity'' then Some (if neg then NegInf else PosInf)
         else if word = ''nan'' then Some NaN
         else map_option (\<lambda>r. to_double (if neg then - r else r)) (decimal_of_string body))"

definition trunc :: "rat \<Rightarrow> int" where
  "trunc r = (if 0 \<le> r then \<lfloor>r\<rfloor> else \<lceil>r\<rceil>)"

text \<open>
  \<open>int(v)\<close>. The text \<open>json.dumps\<close> gives an int is its decimal digits; the text of a
  float always has a point, an exponent or letters, and that of any other value starts
  with a quote, a bracket or a letter.
\<close>

fun py_int :: "pyval \<Rightarrow> pyerr + pyval" where
  "py_int (VInt n) = Inr (VInt n)"
| "py_int (VBool b) = Inr (VInt (if b then 1 else 0))"
| "py_int (VFloat f) =
     (case f of Finite r \<Rightarrow> Inr (VInt (trunc r)) | NaN \<Rightarrow> Inl ValueError | _ \<Rightarrow> Inl OverflowError)"
| "py_int (VStr s) = (case int_of_string s of None \<Rightarrow> Inl ValueError | Some n \<Rightarrow> Inr (VInt n))"
| "py_int (VJsonText v) = (case v of VInt n \<Rightarrow> Inr (VInt n) | _ \<Rightarrow> Inl ValueError)"
| "py_int (VReprText v) = Inl ValueError"
| "py_int _ = Inl TypeError"

text \<open>
  \<open>float(v)\<close>. An int too large for a double raises OverflowError; a decimal string too
  large reads as an infinity. \<open>json.dumps\<close> prints a float with \<open>repr\<close>, which reads back
  as the same float, \<open>str\<close> prints twelve digits.
\<close>

fun py_float :: "pyval \<Rightarrow> pyerr + pyval" where
  "py_float (VFloat f) = Inr (VFloat f)"
| "py_float (VInt n) =
     (case to_double (of_int n) of Finite r \<Rightarrow> Inr (VFloat (Finite r)) | _ \<Rightarrow> Inl OverflowError)"
| "py_float (VBool b) = Inr (VFloat (Finite (if b then 1 else 0)))"
| "py_float (VStr s) = (case float_of_string s of None \<Rightarrow> Inl ValueError | Some f \<Rightarrow> Inr (VFloat f))"
| "py_float (VJsonText v) =
     (case v of
        VInt n \<Rightarrow> Inr (VFloat (to_double (of_int n)))
      | VFloat f \<Rightarrow> Inr (VFloat f)
      | _ \<Rightarrow> Inl ValueError)"
| "py_float (VReprText v) = (case v of VFloat f \<Rightarrow> Inr (VFloat (str_round f)) | _ \<Rightarrow> Inl ValueError)"
| "py_float _ = Inl TypeError"

text \<open>Truth value of an object (\<open>bool(v)\<close>, \<open>if v:\<close>).\<close>

fun truthy :: "pyval \<Rightarrow> bool" where
  "truthy VNone = False"
| "truthy (VBool b) = b"
| "truthy (VInt n) = (n \<noteq> 0)"
| "truthy (VFloat f) = (f \<noteq> Finite 0)"
| "truthy (VStr s) = (s \<noteq> [])"
| "truthy (VJsonText v) = True"
| "truthy (VReprText v) = True"
| "truthy (VList xs) = (xs \<noteq> [])"
| "truthy (VDict kvs) = (kvs \<noteq> [])"
| "truthy (VMatrix m) = True"
| "truthy (VRef a) = True"

fun nat_digits :: "nat \<Rightarrow> nat \<Rightarrow> string" where
  "nat_digits 0 n = []"
| "nat_digits (Suc fuel) n =
     (if n < 10 then [char_of (48 + n)] else nat_digits fuel (n div 10) @ [char_of (48 + n mod 10)])"

definition str_of_int :: "int \<Rightarrow> string" where
  "str_of_int n = (if n < 0 then CHR ''-'' # nat_digits (Suc (nat (- n))) (nat (- n))
                   else nat_digits (Suc (nat n)) (nat n))"

text \<open>
  The items a \<open>for\<close> loop, \<open>enumerate\<close> or \<open>str.join\<close> takes from a value: the items of a
  list, the characters of a string, the keys of a dict, the entries of a matrix.
\<close>

fun py_iter :: "pyval \<Rightarrow> pyerr + pyval list" where
  "py_iter (VList xs) = Inr xs"
| "py_iter (VStr x) = Inr (map (\<lambda>c. VStr [c]) x)"
| "py_iter (VDict d) = Inr (map (\<lambda>kv. VStr (fst kv)) d)"
| "py_iter (VMatrix m) = Inr (map VFloat m)"
| "py_iter _ = Inl TypeError"

text \<open>\<open>dict.pop(key)\<close>: the value and the dict without the key, KeyError when it is missing.\<close>

definition dict_pop :: "string \<Rightarrow> (string \<times> pyval) list \<Rightarrow> pyerr + (pyval \<times> (string \<times> pyval) list)" where
  "dict_pop k d = (case map_of d k of None \<Rightarrow> Inl KeyError
                   | Some v \<Rightarrow> Inr (v, filter (\<lambda>kv. fst kv \<noteq> k) d))"

text \<open>\<open>d[key] = value\<close>: an existing key keeps its place, a new key goes last.\<close>

fun dict_set :: "string \<Rightarrow> 'v \<Rightarrow> (string \<times> 'v) list \<Rightarrow> (string \<times> 'v) list" where
  "dict_set k v [] = [(k, v)]"
| "dict_set k v ((k', v') # d) = (if k = k' then (k, v) # d else (k', v') # dict_set k v d)"

text \<open>\<open>d.update(other)\<close>.\<close>

fun dict_update :: "(string \<times> 'v) list \<Rightarrow> (string \<times> 'v) list \<Rightarrow> (string \<times> 'v) list" where
  "dict_update d [] = d"
| "dict_update d ((k, v) # other) = dict_update (dict_set k v d) other"

subsection \<open>\<open>json.dumps\<close> and \<open>json.loads\<close>\<close>

text \<open>
  What \<open>json.dumps\<close> accepts: None, booleans, numbers, strings, lists and dicts of
  such; a matrix or a MetaNode raises TypeError.
\<close>

fun json_ok :: "pyval \<Rightarrow> bool" where
  "json_ok (VList xs) = list_all json_ok xs"
| "json_ok (VDict kvs) = list_all (\<lambda>kv. json_ok (snd kv)) kvs"
| "json_ok (VMatrix m) = False"
| "json_ok (VRef a) = False"
| "json_ok _ = True"

definition json_dumps :: "pyval \<Rightarrow> pyerr + pyval" where
  "json_dumps v = (if json_ok v then Inr (VJsonText v) else Inl TypeError)"

text \<open>
  \<open>json.loads\<close> of a plain string: the JSON grammar as the library's scanner reads it.
  Blanks are space, tab, line feed and carriage return. A string runs to the closing
  quote, has no control character, and its escapes are the two-character ones and
  \<open>\uXXXX\<close>, which is decoded for each escape on its own. A number is an optional minus,
  an integer part without a leading zero, an optional fraction and an optional exponent;
  it is a float when it has a fraction or an exponent. The literals are \<open>null\<close>, \<open>true\<close>,
  \<open>false\<close>, \<open>NaN\<close>, \<open>Infinity\<close> and \<open>-Infinity\<close>. In an object a later value of a key replaces
  an earlier one. The first argument of \<open>json_value\<close> bounds the nesting and the number
  of items by the length of the text.
\<close>

definition is_json_space :: "char \<Rightarrow> bool" where
  "is_json_space c = (c \<in> set [CHR '' '', CHR 0x09, CHR 0x0A, CHR 0x0D])"

definition skip_ws :: "string \<Rightarrow> string" where
  "skip_ws s = dropWhile is_json_space s"

definition hex_val :: "char \<Rightarrow> nat option" where
  "hex_val c =
     (let n = of_char c :: nat
      in if 48 \<le> n \<and> n \<le> 57 then Some (n - 48)
         else if 65 \<le> n \<and> n \<le> 70 then Some (n - 55)
         else if 97 \<le> n \<and> n \<le> 102 then Some (n - 87)
         else None)"

definition hex4 :: "char \<Rightarrow> char \<Rightarrow> char \<Rightarrow> char \<Rightarrow> nat option" where
  "hex4 a b c d =
     (case (hex_val a, hex_val b, hex_val c, hex_val d) of
        (Some w, Some x, Some y, Some z) \<Rightarrow> Some (((w * 16 + x) * 16 + y) * 16 + z)
      | _ \<Rightarrow> None)"

definition utf8 :: "nat \<Rightarrow> string" where
  "utf8 n =
     (if n < 128 then [char_of n]
      else if n < 2048 then [char_of (192 + n div 64), char_of (128 + n mod 64)]
      else [char_of (224 + n div 4096), char_of (128 + (n div 64) mod 64), char_of (128 + n mod 64)])"

definition json_escape :: "char \<Rightarrow> char option" where
  "json_escape c =
     (if c = CHR 0x22 then Some (CHR 0x22)
      else if c = CHR 0x5C then Some (CHR 0x5C)
      else if c = CHR ''/'' then Some (CHR ''/'')
      else if c = CHR ''b'' then Some (CHR 0x08)
      else if c = CHR ''f'' then Some (CHR 0x0C)
      else if c = CHR ''n'' then Some (CHR 0x0A)
      else if c = CHR ''r'' then Some (CHR 0x0D)
      else if c = CHR ''t'' then Some (CHR 0x09)
      else None)"

text \<open>The characters of a string after its opening quote, and the text after the closing one.\<close>

fun json_string :: "string \<Rightarrow> (string \<times> string) option" where
  "json_string [] = None"
| "json_string (c # cs) =
     (if c = CHR 0x22 then Some ([], cs)
      else if c = CHR 0x5C then
        (case cs of
           [] \<Rightarrow> None
         | e # r \<Rightarrow>
             if e = CHR ''u'' then
               (case r of
                  h1 # h2 # h3 # h4 # r' \<Rightarrow>
                    (case hex4 h1 h2 h3 h4 of
                       None \<Rightarrow> None
                     | Some n \<Rightarrow> map_option (\<lambda>(t, rest). (utf8 n @ t, rest)) (json_string r'))
                | _ \<Rightarrow> None)
             else
               (case json_escape e of
                  None \<Rightarrow> None
                | Some x \<Rightarrow> map_option (\<lambda>(t, rest). (x # t, rest)) (json_string r)))
      else if (of_char c :: nat) < 32 then None
      else map_option (\<lambda>(t, rest). (c # t, rest)) (json_string cs))"

fun strip_prefix :: "string \<Rightarrow> string \<Rightarrow> string option" where
  "strip_prefix [] s = Some s"
| "strip_prefix (p # ps) [] = None"
| "strip_prefix (p # ps) (c # cs) = (if p = c then strip_prefix ps cs else None)"

definition json_literal :: "string \<Rightarrow> (pyval \<times> string) option" where
  "json_literal s =
     (case strip_prefix ''null'' s of Some r \<Rightarrow> Some (VNone, r) | None \<Rightarrow>
     (case strip_prefix ''true'' s of Some r \<Rightarrow> Some (VBool True, r) | None \<Rightarrow>
     (case strip_prefix ''false'' s of Some r \<Rightarrow> Some (VBool False, r) | None \<Rightarrow>
     (case strip_prefix ''NaN'' s of Some r \<Rightarrow> Some (VFloat NaN, r) | None \<Rightarrow>
     (case strip_prefix ''Infinity'' s of Some r \<Rightarrow> Some (VFloat PosInf, r) | None \<Rightarrow>
     (case strip_prefix ''-Infinity'' s of Some r \<Rightarrow> Some (VFloat NegInf, r) | None \<Rightarrow> None))))))"

text \<open>The exponent of a number after its \<open>e\<close>: an optional sign and digits, and the text after them.\<close>

definition exponent_prefix :: "string \<Rightarrow> (int \<times> string) option" where
  "exponent_prefix s =
     (let neg = (s \<noteq> [] \<and> hd s = CHR ''-'');
          s1 = (if s \<noteq> [] \<and> (hd s = CHR ''-'' \<or> hd s = CHR ''+'') then tl s else s);
          ds = takeWhile is_digit s1
      in if ds = [] then None
         else map_option (\<lambda>n. (if neg then - int n else int n, drop (length ds) s1)) (digits_val 0 ds))"

definition json_number :: "string \<Rightarrow> (pyval \<times> string) option" where
  "json_number s =
     (let neg = (s \<noteq> [] \<and> hd s = CHR ''-'');
          s1 = (if neg then tl s else s);
          ip = (if s1 \<noteq> [] \<and> hd s1 = CHR ''0'' then ''0'' else takeWhile is_digit s1);
          r1 = drop (length ip) s1;
          fp = (if r1 \<noteq> [] \<and> hd r1 = CHR ''.'' then takeWhile is_digit (tl r1) else []);
          r2 = (if fp = [] then r1 else drop (Suc (length fp)) r1);
          ex = (if r2 \<noteq> [] \<and> lower (hd r2) = CHR ''e'' then exponent_prefix (tl r2) else None);
          sgn = (if neg then - 1 else 1)
      in if ip = [] then None
         else
           (case digits_val 0 (ip @ fp) of
              None \<Rightarrow> None
            | Some m \<Rightarrow>
                (case ex of
                   Some (e, r3) \<Rightarrow>
                     Some (VFloat (to_double (of_int sgn * of_nat m * pow10 (e - int (length fp)))), r3)
                 | None \<Rightarrow>
                     if fp = [] then Some (VInt (sgn * int m), r2)
                     else Some (VFloat (to_double (of_int sgn * of_nat m * pow10 (- int (length fp)))), r2))))"

fun json_value :: "nat \<Rightarrow> string \<Rightarrow> (pyval \<times> string) option"
  and json_elements :: "nat \<Rightarrow> pyval list \<Rightarrow> string \<Rightarrow> (pyval \<times> string) option"
  and json_members :: "nat \<Rightarrow> (string \<times> pyval) list \<Rightarrow> string \<Rightarrow> (pyval \<times> string) option" where
  "json_value 0 s = None"
| "json_value (Suc k) [] = None"
| "json_value (Suc k) (c # cs) =
     (if c = CHR 0x22 then map_option (\<lambda>(t, r). (VStr t, r)) (json_string cs)
      else if c = CHR 0x5B then
        (case skip_ws cs of
           [] \<Rightarrow> None
         | d # r \<Rightarrow> if d = CHR 0x5D then Some (VList [], r) else json_elements k [] (d # r))
      else if c = CHR 0x7B then
        (case skip_ws cs of
           [] \<Rightarrow> None
         | d # r \<Rightarrow> if d = CHR 0x7D then Some (VDict [], r) else json_members k [] (d # r))
      else
        (case json_number (c # cs) of
           Some res \<Rightarrow> Some res
         | None \<Rightarrow> json_literal (c # cs)))"
| "json_elements 0 acc s = None"
| "json_elements (Suc k) acc s =
     (case json_value k s of
        None \<Rightarrow> None
      | Some (v, r) \<Rightarrow>
          (case skip_ws r of
             [] \<Rightarrow> None
           | d # r' \<Rightarrow>
               if d = CHR 0x2C then json_elements k (acc @ [v]) (skip_ws r')
               else if d = CHR 0x5D then Some (VList (acc @ [v]), r')
               else None))"
| "json_members 0 acc s = None"
| "json_members (Suc k) acc s =
     (case s of
        [] \<Rightarrow> None
      | q # cs \<Rightarrow>
          if q = CHR 0x22 then
            (case json_string cs of
               None \<Rightarrow> None
             | Some (key, r) \<Rightarrow>
                 (case skip_ws r of
                    [] \<Rightarrow> None
                  | d # r1 \<Rightarrow>
                      if d = CHR 0x3A then
                        (case json_value k (skip_ws r1) of
                           None \<Rightarrow> None
                         | Some (v, r2) \<Rightarrow>
                             (case skip_ws r2 of
                                [] \<Rightarrow> None
                              | e # r3 \<Rightarrow>
                                  if e = CHR 0x2C then json_members k (dict_set key v acc) (skip_ws r3)
                                  else if e = CHR 0x7D then Some (VDict (dict_set key v acc), r3)
                                  else None))
                      else None))
          else None)"

text \<open>
  \<open>repr(v)\<close> is a JSON document that reads back as \<open>v\<close>: an int that is no \<open>long\<close>, a finite
  float, a string that \<open>repr\<close> puts between double quotes unescaped, the empty dict, and
  lists of such.
\<close>

fun repr_is_json :: "pyval \<Rightarrow> bool" where
  "repr_is_json (VInt n) = (- (2 ^ 63) \<le> n \<and> n < 2 ^ 63)"
| "repr_is_json (VFloat f) = (case f of Finite r \<Rightarrow> True | _ \<Rightarrow> False)"
| "repr_is_json (VStr x) =
     (CHR 0x27 \<in> set x \<and> CHR 0x22 \<notin> set x
      \<and> list_all (\<lambda>c. 32 \<le> (of_char c :: nat) \<and> (of_char c :: nat) < 127 \<and> c \<noteq> CHR 0x5C) x)"
| "repr_is_json (VList xs) = list_all repr_is_json xs"
| "repr_is_json (VDict d) = (d = [])"
| "repr_is_json _ = False"

text \<open>
  \<open>json.loads(s)\<close>: the text \<open>json.dumps\<close> made reads back as the value it was made from;
  a plain string is parsed, blanks around the document allowed; \<open>str(v)\<close> is the twelve
  digits of a float, and for a list or dict it is \<open>repr(v)\<close>.
\<close>

fun json_loads :: "pyval \<Rightarrow> pyerr + pyval" where
  "json_loads (VJsonText v) = Inr v"
| "json_loads (VStr s) =
     (case json_value (2 * length s + 2) (skip_ws s) of
        None \<Rightarrow> Inl ValueError
      | Some (v, r) \<Rightarrow> if skip_ws r = [] then Inr v else Inl ValueError)"
| "json_loads (VReprText v) =
     (case v of
        VFloat f \<Rightarrow> (case f of Finite r \<Rightarrow> Inr (VFloat (str_round f)) | _ \<Rightarrow> Inl ValueError)
      | VList xs \<Rightarrow> if repr_is_json v then Inr v else Inl ValueError
      | VDict d \<Rightarrow> if repr_is_json v then Inr v else Inl ValueError
      | _ \<Rightarrow> Inl ValueError)"
| "json_loads _ = Inl TypeError"

section \<open>The attribute store\<close>

text \<open>
  The Maya scene the library persists into (\<open>maya.cmds\<close>, \<open>om2\<close>) is outside the
  repository. It is modelled as far as the library uses it: a list of nodes, the position
  in the list being the node's \<open>MObject\<close> handle; each node has a name, a UUID and named
  attributes, and a DAG node has a parent or stands at the top of the hierarchy. An attribute is single or multi, may be locked, may have an incoming
  connection, and holds a value of its type. A string attribute that was never set reads
  as \<open>None\<close>; the other types start at zero, false or the identity matrix. The elements of
  a multi attribute sit at the logical indices \<open>0, 1, ...\<close>.
\<close>

datatype attr_type = TLong | TDouble | TBool | TString | TMatrix | TEnum string

record attr =
  a_type :: attr_type
  a_multi :: bool
  a_value :: pyval
  a_elems :: "(pyval \<times> bool) list"
  a_locked :: bool
  a_connected :: bool
  a_channelBox :: bool

record mnode =
  n_name :: string
  n_uuid :: string
  n_alive :: bool
  n_dag :: bool
  n_parent :: "nat option"
  n_attrs :: "(string \<times> attr) list"

type_synonym scene = "mnode list"

definition identity_matrix :: "pyfloat list" where
  "identity_matrix = map Finite [1, 0, 0, 0,  0, 1, 0, 0,  0, 0, 1, 0,  0, 0, 0, 1]"

fun default_raw :: "attr_type \<Rightarrow> pyval" where
  "default_raw TLong = VInt 0"
| "default_raw TDouble = VFloat (Finite 0)"
| "default_raw TBool = VBool False"
| "default_raw TString = VNone"
| "default_raw TMatrix = VList (map VFloat identity_matrix)"
| "default_raw (TEnum names) = VInt 0"

text \<open>
  The type \<open>addAttr\<close> gives an attribute, from the validator's \<open>create_attribute_kwargs\<close>;
  without a type flag Maya creates a double.
\<close>

definition attr_type_of :: "(string \<times> string) list \<Rightarrow> attr_type" where
  "attr_type_of kw =
     (case map_of kw ''dataType'' of
        Some t \<Rightarrow> (if t = ''string'' then TString else if t = ''matrix'' then TMatrix else TDouble)
      | None \<Rightarrow>
          (case map_of kw ''attributeType'' of
             Some t \<Rightarrow>
               (if t = ''long'' then TLong else if t = ''bool'' then TBool
                else if t = ''enum'' then TEnum (case map_of kw ''enumName'' of Some n \<Rightarrow> n | None \<Rightarrow> [])
                else TDouble)
           | None \<Rightarrow> TDouble))"

text \<open>The number a finite numeric value denotes, and a numeric value as a double.\<close>

fun as_number :: "pyval \<Rightarrow> rat option" where
  "as_number (VInt n) = Some (of_int n)"
| "as_number (VBool b) = Some (if b then 1 else 0)"
| "as_number (VFloat f) = (case f of Finite r \<Rightarrow> Some r | _ \<Rightarrow> None)"
| "as_number _ = None"

fun as_float :: "pyval \<Rightarrow> pyfloat option" where
  "as_float (VInt n) = Some (to_double (of_int n))"
| "as_float (VBool b) = Some (Finite (if b then 1 else 0))"
| "as_float (VFloat f) = Some f"
| "as_float _ = None"

fun is_text :: "pyval \<Rightarrow> bool" where
  "is_text (VStr s) = True"
| "is_text (VJsonText v) = True"
| "is_text (VReprText v) = True"
| "is_text _ = False"

text \<open>The sixteen numbers of a matrix, from an \<open>MMatrix\<close> or a flat sequence.\<close>

fun matrix_entries :: "pyval \<Rightarrow> pyfloat list option" where
  "matrix_entries (VMatrix m) = (if length m = 16 then Some m else None)"
| "matrix_entries (VList xs) =
     (if length xs = 16 \<and> list_all (\<lambda>x. as_float x \<noteq> None) xs
      then Some (map (\<lambda>x. the (as_float x)) xs) else None)"
| "matrix_entries _ = None"

text \<open>
  What \<open>setAttr\<close> stores for a value, by the attribute's type and the \<open>type\<close> flag the
  validator passes (\<open>set_attribute_kwargs\<close>); \<open>None\<close> when Maya rejects the value.
\<close>

definition stored_value :: "attr_type \<Rightarrow> (string \<times> string) list \<Rightarrow> pyval \<Rightarrow> pyval option" where
  "stored_value t kw v =
     (case map_of kw ''type'' of
        Some flag \<Rightarrow>
          (if flag = ''string'' \<and> t = TString \<and> is_text v then Some v
           else if flag = ''matrix'' \<and> t = TMatrix
             then map_option (\<lambda>m. VList (map VFloat m)) (matrix_entries v)
           else None)
      | None \<Rightarrow>
          (case t of
             TLong \<Rightarrow> map_option (\<lambda>r. VInt (trunc r)) (as_number v)
           | TDouble \<Rightarrow> map_option VFloat (as_float v)
           | TBool \<Rightarrow> map_option (\<lambda>r. VBool (r \<noteq> 0)) (as_number v)
           | TEnum names \<Rightarrow> map_option (\<lambda>r. VInt (trunc r)) (as_number v)
           | _ \<Rightarrow> None))"

text \<open>
  The full path of a DAG node (\<open>MFnDagNode.getPath().fullPathName()\<close>): the names from
  the top of the hierarchy down to the node, each after a bar. The first argument bounds
  the climb by the number of nodes.
\<close>

fun fullPathName :: "nat \<Rightarrow> scene \<Rightarrow> nat \<Rightarrow> string" where
  "fullPathName 0 sc h = ''|'' @ n_name (sc ! h)"
| "fullPathName (Suc k) sc h =
     (case n_parent (sc ! h) of
        None \<Rightarrow> []
      | Some p \<Rightarrow> if p < length sc then fullPathName k sc p else [])
     @ ''|'' @ n_name (sc ! h)"

text \<open>
  The strings that denote a node: its name for a node outside the DAG; for a DAG node
  its full path and every partial path, that is what follows a bar of the full path (the
  last of these is the short name).
\<close>

fun after_bars :: "string \<Rightarrow> string list" where
  "after_bars [] = []"
| "after_bars (c # cs) = (if c = CHR ''|'' then [cs] else []) @ after_bars cs"

definition names_of :: "scene \<Rightarrow> nat \<Rightarrow> string list" where
  "names_of sc h =
     (if n_dag (sc ! h)
      then fullPathName (length sc) sc h # after_bars (fullPathName (length sc) sc h)
      else [n_name (sc ! h)])"

definition matches :: "scene \<Rightarrow> string \<Rightarrow> nat list" where
  "matches sc x = filter (\<lambda>i. n_alive (sc ! i) \<and> x \<in> set (names_of sc i)) [0..<length sc]"

text \<open>
  Nodes by name: \<open>cmds.objExists\<close> asks for a match, \<open>MSelectionList.add\<close> followed by
  \<open>getDependNode(0)\<close> takes the first one. \<open>cmds.ls\<close> finds nodes by UUID or name and returns
  for each the shortest string that denotes no other node. Patterns with wildcards are
  left out.
\<close>

definition find_node :: "scene \<Rightarrow> string \<Rightarrow> nat option" where
  "find_node sc name = (case matches sc name of [] \<Rightarrow> None | i # _ \<Rightarrow> Some i)"

definition objExists :: "scene \<Rightarrow> pyval \<Rightarrow> bool" where
  "objExists sc node = (case node of VStr name \<Rightarrow> find_node sc name \<noteq> None | _ \<Rightarrow> False)"

definition unique_name :: "scene \<Rightarrow> nat \<Rightarrow> string" where
  "unique_name sc h =
     (case filter (\<lambda>x. matches sc x = [h]) (rev (names_of sc h)) of
        [] \<Rightarrow> hd (names_of sc h)
      | x # _ \<Rightarrow> x)"

definition ls :: "scene \<Rightarrow> string \<Rightarrow> string list" where
  "ls sc x =
     map (unique_name sc)
       (filter (\<lambda>i. n_alive (sc ! i) \<and> (n_uuid (sc ! i) = x \<or> x \<in> set (names_of sc i)))
          [0..<length sc])"

text \<open>A live node by its handle; a handle to a deleted node raises.\<close>

definition node_at :: "scene \<Rightarrow> nat \<Rightarrow> pyerr + mnode" where
  "node_at sc h = (if h < length sc \<and> n_alive (sc ! h) then Inr (sc ! h) else Inl RuntimeError)"

definition attr_at :: "scene \<Rightarrow> nat \<Rightarrow> string \<Rightarrow> pyerr + attr" where
  "attr_at sc h name =
     (case node_at sc h of
        Inl e \<Rightarrow> Inl e
      | Inr n \<Rightarrow> (case map_of (n_attrs n) name of None \<Rightarrow> Inl ValueError | Some a \<Rightarrow> Inr a))"

definition put_attr :: "scene \<Rightarrow> nat \<Rightarrow> string \<Rightarrow> attr \<Rightarrow> scene" where
  "put_attr sc h name a = sc[h := (sc ! h)\<lparr>n_attrs := dict_set name a (n_attrs (sc ! h))\<rparr>]"

definition attributeQuery_exists :: "scene \<Rightarrow> nat \<Rightarrow> string \<Rightarrow> pyerr + bool" where
  "attributeQuery_exists sc h name =
     (case node_at sc h of Inl e \<Rightarrow> Inl e | Inr n \<Rightarrow> Inr (map_of (n_attrs n) name \<noteq> None))"

definition addAttr :: "scene \<Rightarrow> nat \<Rightarrow> string \<Rightarrow> bool \<Rightarrow> (string \<times> string) list \<Rightarrow> pyerr + scene" where
  "addAttr sc h name multi kw =
     (case node_at sc h of
        Inl e \<Rightarrow> Inl e
      | Inr n \<Rightarrow>
          if map_of (n_attrs n) name \<noteq> None then Inl RuntimeError
          else Inr (put_attr sc h name
                 \<lparr>a_type = attr_type_of kw, a_multi = multi, a_value = default_raw (attr_type_of kw),
                  a_elems = [], a_locked = False, a_connected = False, a_channelBox = False\<rparr>))"

definition getAttr :: "scene \<Rightarrow> nat \<Rightarrow> string \<Rightarrow> pyerr + pyval" where
  "getAttr sc h name = (case attr_at sc h name of Inl e \<Rightarrow> Inl e | Inr a \<Rightarrow> Inr (a_value a))"

definition getAttr_element :: "scene \<Rightarrow> nat \<Rightarrow> string \<Rightarrow> nat \<Rightarrow> pyerr + pyval" where
  "getAttr_element sc h name i =
     (case attr_at sc h name of
        Inl e \<Rightarrow> Inl e
      | Inr a \<Rightarrow> if i < length (a_elems a) then Inr (fst (a_elems a ! i)) else Inl ValueError)"

definition numElements :: "scene \<Rightarrow> nat \<Rightarrow> string \<Rightarrow> pyerr + nat" where
  "numElements sc h name = (case attr_at sc h name of Inl e \<Rightarrow> Inl e | Inr a \<Rightarrow> Inr (length (a_elems a)))"

text \<open>\<open>setAttr(path, value, **set_attribute_kwargs)\<close>: a locked or driven attribute refuses.\<close>

definition setAttr :: "scene \<Rightarrow> nat \<Rightarrow> string \<Rightarrow> pyval \<Rightarrow> (string \<times> string) list \<Rightarrow> pyerr + scene" where
  "setAttr sc h name v kw =
     (case attr_at sc h name of
        Inl e \<Rightarrow> Inl RuntimeError
      | Inr a \<Rightarrow>
          if a_locked a \<or> a_connected a \<or> a_multi a then Inl RuntimeError
          else (case stored_value (a_type a) kw v of
                  None \<Rightarrow> Inl RuntimeError
                | Some raw \<Rightarrow> Inr (put_attr sc h name (a\<lparr>a_value := raw\<rparr>))))"

text \<open>\<open>setAttr(path[i], value, ...)\<close> writes the element at logical index \<open>i\<close>, creating it at the end.\<close>

definition setAttr_element :: "scene \<Rightarrow> nat \<Rightarrow> string \<Rightarrow> nat \<Rightarrow> pyval \<Rightarrow> (string \<times> string) list \<Rightarrow> pyerr + scene" where
  "setAttr_element sc h name i v kw =
     (case attr_at sc h name of
        Inl e \<Rightarrow> Inl RuntimeError
      | Inr a \<Rightarrow>
          if a_locked a \<or> length (a_elems a) < i \<or> \<not> a_multi a then Inl RuntimeError
          else (case stored_value (a_type a) kw v of
                  None \<Rightarrow> Inl RuntimeError
                | Some raw \<Rightarrow>
                    if i < length (a_elems a) then
                      (if snd (a_elems a ! i) then Inl RuntimeError
                       else Inr (put_attr sc h name (a\<lparr>a_elems := (a_elems a)[i := (raw, False)]\<rparr>)))
                    else Inr (put_attr sc h name (a\<lparr>a_elems := a_elems a @ [(raw, False)]\<rparr>))))"

definition setAttr_lock :: "scene \<Rightarrow> nat \<Rightarrow> string \<Rightarrow> bool \<Rightarrow> pyerr + scene" where
  "setAttr_lock sc h name b =
     (case attr_at sc h name of
        Inl e \<Rightarrow> Inl RuntimeError
      | Inr a \<Rightarrow> Inr (put_attr sc h name (a\<lparr>a_locked := b\<rparr>)))"

definition setAttr_element_lock :: "scene \<Rightarrow> nat \<Rightarrow> string \<Rightarrow> nat \<Rightarrow> bool \<Rightarrow> pyerr + scene" where
  "setAttr_element_lock sc h name i b =
     (case attr_at sc h name of
        Inl e \<Rightarrow> Inl RuntimeError
      | Inr a \<Rightarrow>
          if i < length (a_elems a)
          then Inr (put_attr sc h name (a\<lparr>a_elems := (a_elems a)[i := (fst (a_elems a ! i), b)]\<rparr>))
          else Inl RuntimeError)"

definition setAttr_channelBox :: "scene \<Rightarrow> nat \<Rightarrow> string \<Rightarrow> bool \<Rightarrow> pyerr + scene" where
  "setAttr_channelBox sc h name b =
     (case attr_at sc h name of
        Inl e \<Rightarrow> Inl RuntimeError
      | Inr a \<Rightarrow> Inr (put_attr sc h name (a\<lparr>a_channelBox := b\<rparr>)))"

text \<open>\<open>listConnections(path, source=True, destination=False)\<close>, as a truth value.\<close>

definition listConnections :: "scene \<Rightarrow> nat \<Rightarrow> string \<Rightarrow> pyerr + bool" where
  "listConnections sc h name = (case attr_at sc h name of Inl e \<Rightarrow> Inl ValueError | Inr a \<Rightarrow> Inr (a_connected a))"

text \<open>\<open>removeMultiInstance(path, allChildren=True, b=True)\<close>: every element goes, connections are broken.\<close>

definition removeMultiInstance :: "scene \<Rightarrow> nat \<Rightarrow> string \<Rightarrow> pyerr + scene" where
  "removeMultiInstance sc h name =
     (case attr_at sc h name of
        Inl e \<Rightarrow> Inl RuntimeError
      | Inr a \<Rightarrow> Inr (put_attr sc h name (a\<lparr>a_elems := [], a_connected := False\<rparr>)))"

text \<open>Another node's output is connected to the attribute (\<open>cmds.connectAttr\<close>, done by the user).\<close>

definition connectAttr :: "scene \<Rightarrow> nat \<Rightarrow> string \<Rightarrow> scene" where
  "connectAttr sc h name =
     (case attr_at sc h name of Inl e \<Rightarrow> sc | Inr a \<Rightarrow> put_attr sc h name (a\<lparr>a_connected := True\<rparr>))"

text \<open>The user renames a node (\<open>cmds.rename\<close>).\<close>

definition rename :: "scene \<Rightarrow> nat \<Rightarrow> string \<Rightarrow> scene" where
  "rename sc h name = sc[h := (sc ! h)\<lparr>n_name := name\<rparr>]"

text \<open>
  \<open>cmds.createNode("transform")\<close>: a new DAG node at the top of the hierarchy, with the
  given name and UUID and no attribute of the library's.
\<close>

definition createNode :: "scene \<Rightarrow> string \<Rightarrow> string \<Rightarrow> scene" where
  "createNode sc name uuid =
     sc @ [\<lparr>n_name = name, n_uuid = uuid, n_alive = True, n_dag = True, n_parent = None, n_attrs = []\<rparr>]"

text \<open>The user puts a DAG node under another one (\<open>cmds.parent\<close>, \<open>cmds.group\<close>).\<close>

definition reparent :: "scene \<Rightarrow> nat \<Rightarrow> nat \<Rightarrow> scene" where
  "reparent sc h p = sc[h := (sc ! h)\<lparr>n_parent := Some p\<rparr>]"

section \<open>Classes, objects and the interpreter state\<close>

text \<open>
  A class with the classes derived from it (\<open>cls.__subclasses__()\<close>), and
  \<open>utils.all_subclasses\<close>. The source returns a set; the list here has no repetition for
  a hierarchy that is a tree.
\<close>

datatype 'c klass = Klass 'c "'c klass list"

fun klass_name :: "'c klass \<Rightarrow> 'c" where
  "klass_name (Klass c subs) = c"

fun all_subclasses :: "'c klass \<Rightarrow> 'c klass list" where
  "all_subclasses (Klass c subs) = subs @ concat (map all_subclasses subs)"

datatype validator =
    FieldValidator | IntValidator | FloatValidator | BoolValidator | StringValidator
  | MatrixValidator | EnumValidator | MetaNodeValidator | JsonValidator

definition FieldValidator_class :: "validator klass" where
  "FieldValidator_class =
     Klass FieldValidator
       [Klass IntValidator [], Klass FloatValidator [], Klass BoolValidator [],
        Klass StringValidator [Klass MetaNodeValidator [], Klass JsonValidator []],
        Klass MatrixValidator [], Klass EnumValidator []]"

fun validator_name :: "validator \<Rightarrow> string" where
  "validator_name FieldValidator = ''FieldValidator''"
| "validator_name IntValidator = ''IntValidator''"
| "validator_name FloatValidator = ''FloatValidator''"
| "validator_name BoolValidator = ''BoolValidator''"
| "validator_name StringValidator = ''StringValidator''"
| "validator_name MatrixValidator = ''MatrixValidator''"
| "validator_name EnumValidator = ''EnumValidator''"
| "validator_name MetaNodeValidator = ''MetaNodeValidator''"
| "validator_name JsonValidator = ''JsonValidator''"

datatype Accessibility = Private | Public

fun Accessibility_value :: "Accessibility \<Rightarrow> int" where
  "Accessibility_value Private = 1"
| "Accessibility_value Public = 2"

text \<open>
  Modelled from the spec: the \<open>enum\<close> module of the package is not among the sources;
  \<open>Accessibility(value)\<close> is the member with that value, ValueError when there is none.
\<close>

definition Accessibility_of :: "pyval \<Rightarrow> pyerr + Accessibility" where
  "Accessibility_of v =
     (case as_number v of
        None \<Rightarrow> Inl ValueError
      | Some r \<Rightarrow> if r = 1 then Inr Private else if r = 2 then Inr Public else Inl ValueError)"

datatype field_cls = Field | PublicField | MultiField

text \<open>
  A Field object (\<open>FieldBase.__init__\<close> sets the attributes); \<open>mplug\<close> is the plug of
  \<open>path()\<close> and is not kept apart. A MetaNode object: \<open>mobject\<close> and \<open>fields\<close> are unset
  (\<open>None\<close> here) between \<open>__new__\<close> and \<open>__init__\<close>; \<open>fields\<close> maps a name to the
  address of its Field object.
\<close>

record field =
  f_cls :: field_cls
  f_validator :: validator
  f_create_kwargs :: "(string \<times> string) list"
  f_metanode :: nat
  f_name :: string
  f_value :: pyval

record metanode =
  mn_cls :: string
  mn_mobject :: "nat option"
  mn_fields :: "(string \<times> nat) list option"

text \<open>
  The state of the process and of the scene: the Maya scene, the MetaNode and Field
  objects by address, the class attribute \<open>MetaNode._instances\<close>, the class \<open>MetaNode\<close>
  with the subclasses defined so far, what \<open>logger.warning\<close> received, and the calls of
  \<open>initialize()\<close> (a hook that does nothing in \<open>MetaNode\<close>; the receiver of each call is
  recorded).
\<close>

record state =
  maya :: scene
  mheap :: "metanode list"
  fheap :: "field list"
  instances :: "string \<rightharpoonup> nat"
  classes :: "string klass"
  warnings :: "pyerr list"
  init_calls :: "nat list"

definition andthen :: "pyerr + 'a \<Rightarrow> ('a \<Rightarrow> pyerr + 'b) \<Rightarrow> pyerr + 'b" where
  "andthen r f = (case r of Inl e \<Rightarrow> Inl e | Inr v \<Rightarrow> f v)"

definition metanode_at :: "state \<Rightarrow> nat \<Rightarrow> pyerr + metanode" where
  "metanode_at s a = (if a < length (mheap s) then Inr (mheap s ! a) else Inl RuntimeError)"

definition field_at :: "state \<Rightarrow> nat \<Rightarrow> pyerr + field" where
  "field_at s fa = (if fa < length (fheap s) then Inr (fheap s ! fa) else Inl RuntimeError)"

definition set_value :: "nat \<Rightarrow> pyval \<Rightarrow> state \<Rightarrow> state" where
  "set_value fa v s = s\<lparr>fheap := (fheap s)[fa := (fheap s ! fa)\<lparr>f_value := v\<rparr>]\<rparr>"

section \<open>metanode.py: accessors of \<open>MetaNode\<close>\<close>

text \<open>
  \<open>MetaNode.__getattr__\<close> runs when the normal lookup fails; it reads \<open>self.fields\<close>, and
  on an object that has no \<open>fields\<close> yet that read enters \<open>__getattr__\<close> again without
  end: Python stops the recursion with RuntimeError.
\<close>

definition MetaNode_fields :: "state \<Rightarrow> nat \<Rightarrow> pyerr + (string \<times> nat) list" where
  "MetaNode_fields s a =
     andthen (metanode_at s a) (\<lambda>m. case mn_fields m of None \<Rightarrow> Inl RuntimeError | Some fs \<Rightarrow> Inr fs)"

definition MetaNode_getattr :: "state \<Rightarrow> nat \<Rightarrow> string \<Rightarrow> pyerr + nat option" where
  "MetaNode_getattr s a name =
     andthen (MetaNode_fields s a) (\<lambda>fs.
       case map_of fs name of Some field \<Rightarrow> Inr (Some field) | None \<Rightarrow> Inr None)"

definition MetaNode_mobject :: "state \<Rightarrow> nat \<Rightarrow> pyerr + nat" where
  "MetaNode_mobject s a =
     andthen (metanode_at s a) (\<lambda>m. case mn_mobject m of None \<Rightarrow> Inl RuntimeError | Some h \<Rightarrow> Inr h)"

definition MetaNode_name :: "state \<Rightarrow> nat \<Rightarrow> pyerr + string" where
  "MetaNode_name s a =
     andthen (MetaNode_mobject s a) (\<lambda>h. andthen (node_at (maya s) h) (\<lambda>n. Inr (n_name n)))"

definition MetaNode_path :: "state \<Rightarrow> nat \<Rightarrow> pyerr + string" where
  "MetaNode_path s a =
     andthen (MetaNode_mobject s a) (\<lambda>h.
     andthen (node_at (maya s) h) (\<lambda>n.
       Inr (if n_dag n then fullPathName (length (maya s)) (maya s) h else n_name n)))"

definition get_uuid :: "scene \<Rightarrow> nat \<Rightarrow> pyerr + string" where
  "get_uuid sc mobject = andthen (node_at sc mobject) (\<lambda>n. Inr (n_uuid n))"

definition get_mobject :: "scene \<Rightarrow> pyval \<Rightarrow> pyerr + nat" where
  "get_mobject sc node =
     (case node of
        VStr name \<Rightarrow> (case find_node sc name of None \<Rightarrow> Inl RuntimeError | Some h \<Rightarrow> Inr h)
      | _ \<Rightarrow> Inl TypeError)"

definition MetaNode_uuid :: "state \<Rightarrow> nat \<Rightarrow> pyerr + string" where
  "MetaNode_uuid s a = andthen (MetaNode_mobject s a) (\<lambda>h. get_uuid (maya s) h)"

text \<open>
  Attribute access \<open>m.name\<close>. Python looks the name up on the instance and on its class
  first, and calls \<open>__getattr__\<close> only when that finds nothing. The class attributes are
  the names the body of \<open>class MetaNode\<close> binds and those every \<open>object\<close> has; the instance
  attributes are \<open>mobject\<close> and \<open>fields\<close>, once \<open>__init__\<close> has assigned them. The classes
  of the model bind no further name. \<open>Member\<close> stands for the method or instance attribute
  found by the normal lookup.
\<close>

definition MetaNode_attributes :: "string list" where
  "MetaNode_attributes =
     [''_instances'', ''__new__'', ''__init__'', ''new'', ''from_uuid'', ''initialize'',
      ''add_default_fields'', ''add_field'', ''read_fields'', ''write_fields'', ''serialize'',
      ''name'', ''path'', ''uuid'', ''__getattr__'', ''__repr__'', ''__str__'', ''__eq__'']"

definition object_attributes :: "string list" where
  "object_attributes =
     [''__class__'', ''__delattr__'', ''__dict__'', ''__doc__'', ''__format__'',
      ''__getattribute__'', ''__hash__'', ''__module__'', ''__reduce__'', ''__reduce_ex__'',
      ''__setattr__'', ''__sizeof__'', ''__subclasshook__'', ''__weakref__'']"

datatype attribute = Member | FieldObject nat | NoneObject

definition getattribute :: "state \<Rightarrow> nat \<Rightarrow> string \<Rightarrow> pyerr + attribute" where
  "getattribute s a name =
     andthen (metanode_at s a) (\<lambda>m.
       if name \<in> set (MetaNode_attributes @ object_attributes) then Inr Member
       else if name = ''mobject'' \<and> mn_mobject m \<noteq> None then Inr Member
       else if name = ''fields'' \<and> mn_fields m \<noteq> None then Inr Member
       else andthen (MetaNode_getattr s a name) (\<lambda>r.
              case r of Some field \<Rightarrow> Inr (FieldObject field) | None \<Rightarrow> Inr NoneObject))"

section \<open>validators.py\<close>

fun create_attribute_kwargs :: "validator \<Rightarrow> (string \<times> string) list" where
  "create_attribute_kwargs FieldValidator = []"
| "create_attribute_kwargs IntValidator = [(''attributeType'', ''long'')]"
| "create_attribute_kwargs FloatValidator = [(''attributeType'', ''double'')]"
| "create_attribute_kwargs BoolValidator = [(''attributeType'', ''bool'')]"
| "create_attribute_kwargs StringValidator = [(''dataType'', ''string'')]"
| "create_attribute_kwargs MatrixValidator = [(''dataType'', ''matrix'')]"
| "create_attribute_kwargs EnumValidator = [(''attributeType'', ''enum'')]"
| "create_attribute_kwargs MetaNodeValidator = [(''dataType'', ''string'')]"
| "create_attribute_kwargs JsonValidator = [(''dataType'', ''string'')]"

fun set_attribute_kwargs :: "validator \<Rightarrow> (string \<times> string) list" where
  "set_attribute_kwargs StringValidator = [(''type'', ''string'')]"
| "set_attribute_kwargs MetaNodeValidator = [(''type'', ''string'')]"
| "set_attribute_kwargs JsonValidator = [(''type'', ''string'')]"
| "set_attribute_kwargs MatrixValidator = [(''type'', ''matrix'')]"
| "set_attribute_kwargs _ = []"

fun get_default_value :: "validator \<Rightarrow> pyval" where
  "get_default_value FieldValidator = VNone"
| "get_default_value IntValidator = VInt 0"
| "get_default_value FloatValidator = VFloat (Finite 0)"
| "get_default_value BoolValidator = VBool False"
| "get_default_value StringValidator = VStr []"
| "get_default_value MatrixValidator = VMatrix identity_matrix"
| "get_default_value EnumValidator = VNone"
| "get_default_value MetaNodeValidator = VNone"
| "get_default_value JsonValidator = VDict []"

text \<open>\<open>":".join(choices)\<close>, over the items of \<open>choices\<close>, which must be strings.\<close>

fun join_colon :: "pyval list \<Rightarrow> pyerr + string" where
  "join_colon [] = Inr []"
| "join_colon [VStr x] = Inr x"
| "join_colon (VStr x # xs) = andthen (join_colon xs) (\<lambda>r. Inr (x @ '':'' @ r))"
| "join_colon (_ # xs) = Inl TypeError"

definition process_kwargs :: "validator \<Rightarrow> (string \<times> pyval) list \<Rightarrow> pyerr + (string \<times> string) list" where
  "process_kwargs v kwargs =
     (if v = EnumValidator then
        andthen (py_iter (case map_of kwargs ''choices'' of None \<Rightarrow> VList [] | Some c \<Rightarrow> c)) (\<lambda>choices.
        andthen (join_colon choices) (\<lambda>joined.
          Inr (dict_set ''enumName'' (joined @ '':'') (create_attribute_kwargs v))))
      else Inr (create_attribute_kwargs v))"

text \<open>
  \<open>str(value)\<close>; a MetaNode prints as its path. A list or dict prints the \<open>repr\<close> of its
  items, and the \<open>repr\<close> of a MetaNode calls its \<open>name()\<close>.
\<close>

fun refs_of :: "pyval \<Rightarrow> nat list" where
  "refs_of (VRef a) = [a]"
| "refs_of (VList xs) = concat (map refs_of xs)"
| "refs_of (VDict d) = concat (map (\<lambda>kv. refs_of (snd kv)) d)"
| "refs_of _ = []"

fun repr_refs :: "state \<Rightarrow> nat list \<Rightarrow> pyerr + unit" where
  "repr_refs s [] = Inr ()"
| "repr_refs s (a # rest) = andthen (MetaNode_name s a) (\<lambda>n. repr_refs s rest)"

definition py_str :: "state \<Rightarrow> pyval \<Rightarrow> pyerr + pyval" where
  "py_str s v =
     (case v of
        VStr x \<Rightarrow> Inr (VStr x)
      | VJsonText x \<Rightarrow> Inr (VJsonText x)
      | VReprText x \<Rightarrow> Inr (VReprText x)
      | VNone \<Rightarrow> Inr (VStr ''None'')
      | VBool b \<Rightarrow> Inr (VStr (if b then ''True'' else ''False''))
      | VInt n \<Rightarrow> Inr (VStr (str_of_int n))
      | VRef a \<Rightarrow> andthen (MetaNode_path s a) (\<lambda>p. Inr (VStr p))
      | _ \<Rightarrow> andthen (repr_refs s (refs_of v)) (\<lambda>u. Inr (VReprText v)))"

text \<open>\<open>to_attribute\<close>: the field value as Maya stores it.\<close>

definition to_attribute :: "validator \<Rightarrow> state \<Rightarrow> pyval \<Rightarrow> pyerr + pyval" where
  "to_attribute v s val =
     (case v of
        IntValidator \<Rightarrow> py_int val
      | FloatValidator \<Rightarrow> py_float val
      | BoolValidator \<Rightarrow> Inr (VBool (truthy val))
      | StringValidator \<Rightarrow> py_str s val
      | MetaNodeValidator \<Rightarrow>
          (if truthy val then
             (case val of VRef a \<Rightarrow> andthen (MetaNode_uuid s a) (\<lambda>u. Inr (VStr u))
              | _ \<Rightarrow> Inl AttributeError)
           else Inr (VStr []))
      | JsonValidator \<Rightarrow> json_dumps (if val = VNone then VDict [] else val)
      | _ \<Rightarrow> Inr val)"

text \<open>
  \<open>from_attribute\<close>: the stored value as the field holds it. \<open>MetaNodeValidator\<close> builds
  the MetaNode of the node with the stored UUID: \<open>wrap\<close> is the call \<open>MetaNode(res[0])\<close>.
\<close>

type_synonym wrapper = "string klass \<Rightarrow> pyval \<Rightarrow> state \<Rightarrow> pyerr + (nat \<times> state)"

definition from_attribute :: "wrapper \<Rightarrow> validator \<Rightarrow> pyval \<Rightarrow> state \<Rightarrow> pyerr + (pyval \<times> state)" where
  "from_attribute wrap v raw s =
     (case v of
        MatrixValidator \<Rightarrow>
          (case matrix_entries raw of None \<Rightarrow> Inl TypeError | Some m \<Rightarrow> Inr (VMatrix m, s))
      | MetaNodeValidator \<Rightarrow>
          (if \<not> truthy raw then Inr (VNone, s)
           else (case raw of
                   VStr u \<Rightarrow>
                     (case ls (maya s) u of
                        [] \<Rightarrow> Inr (VNone, s)
                      | name # _ \<Rightarrow>
                          andthen (wrap (classes s) (VStr name) s) (\<lambda>(node, s'). Inr (VRef node, s')))
                 | VJsonText x \<Rightarrow> Inr (VNone, s)
                 | VReprText x \<Rightarrow> Inr (VNone, s)
                 | _ \<Rightarrow> Inl TypeError))
      | JsonValidator \<Rightarrow>
          andthen (json_loads (if raw = VNone then VStr ''{}'' else raw)) (\<lambda>val. Inr (val, s))
      | _ \<Rightarrow> Inr (raw, s))"

section \<open>fields.py\<close>

definition get_field_class :: "Accessibility \<Rightarrow> pyval \<Rightarrow> pyerr + field_cls" where
  "get_field_class accessibility multi =
     (if truthy multi then
        (if accessibility = Private then Inr MultiField else Inl ValueError)
      else Inr (if accessibility = Public then PublicField else Field))"

text \<open>
  \<open>FieldBase.path\<close>: the path of the owner and the attribute name. The store is
  addressed by the owner's node handle, which the path names.
\<close>

definition Field_path :: "state \<Rightarrow> nat \<Rightarrow> pyerr + (nat \<times> string)" where
  "Field_path s fa =
     andthen (field_at s fa) (\<lambda>f.
     andthen (MetaNode_path s (f_metanode f)) (\<lambda>p.
     andthen (MetaNode_mobject s (f_metanode f)) (\<lambda>h. Inr (h, f_name f))))"

text \<open>\<open>create_attribute\<close> of \<open>SingleFieldBase\<close>, \<open>PublicField\<close> and \<open>MultiField\<close>.\<close>

definition create_attribute :: "nat \<Rightarrow> state \<Rightarrow> pyerr + (bool \<times> state)" where
  "create_attribute fa s =
     andthen (field_at s fa) (\<lambda>f.
     andthen (Field_path s fa) (\<lambda>(h, name).
     andthen (attributeQuery_exists (maya s) h name) (\<lambda>ex.
       if \<not> ex then
         andthen (addAttr (maya s) h name (f_cls f = MultiField) (f_create_kwargs f)) (\<lambda>sc.
           if f_cls f = PublicField then
             andthen (setAttr_channelBox sc h name True) (\<lambda>sc'. Inr (True, s\<lparr>maya := sc'\<rparr>))
           else Inr (True, s\<lparr>maya := sc\<rparr>))
       else Inr (False, s))))"

text \<open>\<open>utils.get_mplug\<close>: the plug of an attribute that exists.\<close>

definition get_mplug :: "state \<Rightarrow> nat \<Rightarrow> pyerr + (nat \<times> string)" where
  "get_mplug s fa =
     andthen (Field_path s fa) (\<lambda>(h, name).
       case attr_at (maya s) h name of Inl e \<Rightarrow> Inl RuntimeError | Inr a \<Rightarrow> Inr (h, name))"

text \<open>\<open>MultiField._iter_elements\<close>: the logical indices of the plug's elements.\<close>

definition iter_elements :: "state \<Rightarrow> nat \<Rightarrow> pyerr + ((nat \<times> string) \<times> nat list)" where
  "iter_elements s fa =
     andthen (field_at s fa) (\<lambda>f.
     andthen (MetaNode_mobject s (f_metanode f)) (\<lambda>h.
     andthen (numElements (maya s) h (f_name f)) (\<lambda>n. Inr ((h, f_name f), [0..<n]))))"

fun read_elements ::
  "wrapper \<Rightarrow> validator \<Rightarrow> nat \<Rightarrow> string \<Rightarrow> nat list \<Rightarrow> pyval list \<Rightarrow> state \<Rightarrow> pyerr + (pyval list \<times> state)" where
  "read_elements wrap v h name [] result s = Inr (result, s)"
| "read_elements wrap v h name (i # is) result s =
     (case getAttr_element (maya s) h name i of
        Inl e \<Rightarrow> Inl e
      | Inr raw \<Rightarrow>
          (case from_attribute wrap v raw s of
             Inl e \<Rightarrow> Inl e
           | Inr (val, s') \<Rightarrow> read_elements wrap v h name is (result @ [val]) s'))"

text \<open>\<open>Field.read\<close> and \<open>MultiField.read\<close>. Neither returns a value.\<close>

definition Field_read :: "wrapper \<Rightarrow> nat \<Rightarrow> state \<Rightarrow> pyerr + state" where
  "Field_read wrap fa s =
     andthen (field_at s fa) (\<lambda>f.
       if f_cls f = MultiField then
         andthen (iter_elements s fa) (\<lambda>((h, name), idx).
         andthen (read_elements wrap (f_validator f) h name idx [] s) (\<lambda>(result, s').
           Inr (set_value fa (VList result) s')))
       else
         andthen (Field_path s fa) (\<lambda>(h, name).
         andthen (getAttr (maya s) h name) (\<lambda>raw.
           if raw = VNone then Inr s
           else andthen (from_attribute wrap (f_validator f) raw s) (\<lambda>(val, s').
                  Inr (set_value fa val s')))))"

text \<open>
  \<open>_protect_attribute\<close> of \<open>FieldBase\<close> (unlock, body, lock) and of \<open>PublicField\<close> (body
  only): the part before and the part after \<open>yield\<close>. The part after runs when the body
  ends or returns, not when it raises.
\<close>

definition protect_before :: "nat \<Rightarrow> state \<Rightarrow> pyerr + state" where
  "protect_before fa s =
     andthen (field_at s fa) (\<lambda>f.
       if f_cls f = PublicField then Inr s
       else andthen (Field_path s fa) (\<lambda>(h, name).
            andthen (setAttr_lock (maya s) h name False) (\<lambda>sc. Inr (s\<lparr>maya := sc\<rparr>))))"

definition protect_after :: "nat \<Rightarrow> state \<Rightarrow> pyerr + state" where
  "protect_after fa s =
     andthen (field_at s fa) (\<lambda>f.
       if f_cls f = PublicField then Inr s
       else andthen (Field_path s fa) (\<lambda>(h, name).
            andthen (setAttr_lock (maya s) h name True) (\<lambda>sc. Inr (s\<lparr>maya := sc\<rparr>))))"

text \<open>\<open>Field.write\<close>, inherited by \<open>PublicField\<close>.\<close>

definition Field_write_single :: "nat \<Rightarrow> state \<Rightarrow> pyerr + state" where
  "Field_write_single fa s =
     andthen (field_at s fa) (\<lambda>f.
       case to_attribute (f_validator f) s (f_value f) of
         Inl error \<Rightarrow> Inr (s\<lparr>warnings := warnings s @ [error]\<rparr>)
       | Inr val \<Rightarrow>
           andthen (protect_before fa s) (\<lambda>s1.
           andthen (Field_path s1 fa) (\<lambda>(h, name).
           andthen (listConnections (maya s1) h name) (\<lambda>connected.
             if connected then protect_after fa s1
             else andthen (setAttr (maya s1) h name val (set_attribute_kwargs (f_validator f))) (\<lambda>sc.
                    protect_after fa (s1\<lparr>maya := sc\<rparr>))))))"

fun lock_elements :: "nat \<Rightarrow> string \<Rightarrow> bool \<Rightarrow> nat list \<Rightarrow> scene \<Rightarrow> pyerr + scene" where
  "lock_elements h name b [] sc = Inr sc"
| "lock_elements h name b (i # is) sc =
     (case setAttr_element_lock sc h name i b of
        Inl e \<Rightarrow> Inl e
      | Inr sc' \<Rightarrow> lock_elements h name b is sc')"

text \<open>The element loops of \<open>MultiField._protect_attribute\<close> and \<open>_clear_maya_attribute\<close>.\<close>

definition lock_all_elements :: "bool \<Rightarrow> nat \<Rightarrow> state \<Rightarrow> pyerr + state" where
  "lock_all_elements b fa s =
     andthen (iter_elements s fa) (\<lambda>((h, name), idx).
     andthen (lock_elements h name b idx (maya s)) (\<lambda>sc. Inr (s\<lparr>maya := sc\<rparr>)))"

definition clear_maya_attribute :: "nat \<Rightarrow> state \<Rightarrow> pyerr + state" where
  "clear_maya_attribute fa s =
     andthen (Field_path s fa) (\<lambda>(h, name).
     andthen (setAttr_lock (maya s) h name False) (\<lambda>sc.
     andthen (lock_all_elements False fa (s\<lparr>maya := sc\<rparr>)) (\<lambda>s1.
     andthen (Field_path s1 fa) (\<lambda>(h, name).
     andthen (removeMultiInstance (maya s1) h name) (\<lambda>sc'. Inr (s1\<lparr>maya := sc'\<rparr>))))))"

text \<open>What \<open>enumerate(value)\<close> runs over.\<close>

fun write_elements :: "nat \<Rightarrow> validator \<Rightarrow> nat \<Rightarrow> pyval list \<Rightarrow> state \<Rightarrow> pyerr + state" where
  "write_elements fa v i [] s = Inr s"
| "write_elements fa v i (index_value # rest) s =
     (case to_attribute v s index_value of
        Inl e \<Rightarrow> Inl e
      | Inr raw \<Rightarrow>
          (case Field_path s fa of
             Inl e \<Rightarrow> Inl e
           | Inr (h, name) \<Rightarrow>
               (case setAttr_element (maya s) h name i raw (set_attribute_kwargs v) of
                  Inl e \<Rightarrow> Inl e
                | Inr sc \<Rightarrow> write_elements fa v (Suc i) rest (s\<lparr>maya := sc\<rparr>))))"

text \<open>\<open>MultiField.write\<close>.\<close>

definition MultiField_write :: "nat \<Rightarrow> state \<Rightarrow> pyerr + state" where
  "MultiField_write fa s =
     andthen (field_at s fa) (\<lambda>f.
     andthen (lock_all_elements False fa s) (\<lambda>s1.
     andthen (clear_maya_attribute fa s1) (\<lambda>s2.
     andthen (py_iter (f_value f)) (\<lambda>items.
     andthen (write_elements fa (f_validator f) 0 items s2) (\<lambda>s3.
       lock_all_elements True fa s3)))))"

definition Field_write :: "nat \<Rightarrow> state \<Rightarrow> pyerr + state" where
  "Field_write fa s =
     andthen (field_at s fa) (\<lambda>f.
       if f_cls f = MultiField then MultiField_write fa s else Field_write_single fa s)"

text \<open>
  \<open>get\<close> and \<open>set\<close> of \<open>Field\<close>, \<open>MultiField\<close> and \<open>PublicField\<close>. \<open>PublicField.get\<close> is
  \<open>return self.read()\<close>, and \<open>read\<close> has no \<open>return\<close> statement with a value.
\<close>

definition Field_get :: "wrapper \<Rightarrow> nat \<Rightarrow> state \<Rightarrow> pyerr + (pyval \<times> state)" where
  "Field_get wrap fa s =
     andthen (field_at s fa) (\<lambda>f.
       if f_cls f = PublicField then andthen (Field_read wrap fa s) (\<lambda>s'. Inr (VNone, s'))
       else Inr (f_value f, s))"

definition Field_set :: "nat \<Rightarrow> pyval \<Rightarrow> state \<Rightarrow> pyerr + state" where
  "Field_set fa val s =
     andthen (field_at s fa) (\<lambda>f.
       if f_cls f = PublicField then Field_write fa (set_value fa val s)
       else Inr (set_value fa val s))"

text \<open>
  \<open>FieldBase.__init__\<close> and \<open>MultiField.__init__\<close>, called with the keyword arguments
  \<open>kwargs\<close>: \<open>default_value\<close> is a parameter of its own, a keyword that names another
  parameter is a TypeError.
\<close>

definition Field_init ::
  "wrapper \<Rightarrow> field_cls \<Rightarrow> validator \<Rightarrow> nat \<Rightarrow> string \<Rightarrow> (string \<times> pyval) list \<Rightarrow> state \<Rightarrow> pyerr + (nat \<times> state)" where
  "Field_init wrap fcls validator_class metanode name kwargs s =
     (if list_ex (\<lambda>k. k \<in> set [''self'', ''validator_class'', ''metanode'', ''name'']) (map fst kwargs)
      then Inl TypeError
      else
        let given = (case map_of kwargs ''default_value'' of None \<Rightarrow> VNone | Some d \<Rightarrow> d);
            default_value = (if fcls = MultiField \<and> given = VNone then VList [] else given);
            rest = filter (\<lambda>kv. fst kv \<noteq> ''default_value'') kwargs
        in andthen (process_kwargs validator_class rest) (\<lambda>ckw.
             let fa = length (fheap s);
                 s1 = s\<lparr>fheap := fheap s @
                        [\<lparr>f_cls = fcls, f_validator = validator_class, f_create_kwargs = ckw,
                          f_metanode = metanode, f_name = name,
                          f_value = (if default_value \<noteq> VNone then default_value
                                     else get_default_value validator_class)\<rparr>]\<rparr>
             in andthen (create_attribute fa s1) (\<lambda>(created, s2).
                andthen (get_mplug s2 fa) (\<lambda>mplug.
                andthen (Field_read wrap fa s2) (\<lambda>s3. Inr (fa, s3))))))"

section \<open>metanode.py\<close>

text \<open>The field an attribute access such as \<open>self.metanode_fields\<close> gives, for a call on it.\<close>

definition field_named :: "state \<Rightarrow> nat \<Rightarrow> string \<Rightarrow> pyerr + nat" where
  "field_named s self name =
     andthen (MetaNode_getattr s self name) (\<lambda>r.
       case r of None \<Rightarrow> Inl AttributeError | Some field \<Rightarrow> Inr field)"

text \<open>
  \<open>MetaNode.add_field\<close>. The last statement changes the dict that
  \<open>self.metanode_fields.get()\<close> returns, which for a private field is the field's value.
\<close>

definition add_field ::
  "wrapper \<Rightarrow> nat \<Rightarrow> validator \<Rightarrow> string \<Rightarrow> Accessibility \<Rightarrow> pyval \<Rightarrow> (string \<times> pyval) list \<Rightarrow> state
     \<Rightarrow> pyerr + (nat \<times> state)" where
  "add_field wrap self validator name accessibility multi kwargs s =
     (if list_ex (\<lambda>k. k \<in> set [''self'', ''validator'', ''name'', ''accessibility'', ''multi'']) (map fst kwargs)
      then Inl TypeError
      else
        andthen (get_field_class accessibility multi) (\<lambda>field_cls.
        andthen (Field_init wrap field_cls validator self name kwargs s) (\<lambda>(field, s1).
        andthen (MetaNode_fields s1 self) (\<lambda>fs.
          let s2 = s1\<lparr>mheap := (mheap s1)[self := (mheap s1 ! self)\<lparr>mn_fields := Some (dict_set name field fs)\<rparr>]\<rparr>;
              field_data = dict_update
                [(''validator'', VStr (validator_name validator)),
                 (''multi'', multi),
                 (''accessibility'', VInt (Accessibility_value accessibility))] kwargs
          in andthen (field_named s2 self ''metanode_fields'') (\<lambda>schema.
             andthen (Field_get wrap schema s2) (\<lambda>(d, s3).
               case d of
                 VDict kvs \<Rightarrow> Inr (field, set_value schema (VDict (dict_set name (VDict field_data) kvs)) s3)
               | _ \<Rightarrow> Inl TypeError))))))"

text \<open>
  The body of the loop of \<open>add_default_fields\<close> over the persisted descriptors.
  \<open>field_data\<close> is one of the dicts inside the value of the schema field \<open>schema\<close> the loop
  runs over, so the three \<open>pop\<close>s change that value in place.
\<close>

fun add_matching ::
  "wrapper \<Rightarrow> nat \<Rightarrow> pyval \<Rightarrow> string \<Rightarrow> Accessibility \<Rightarrow> pyval \<Rightarrow> (string \<times> pyval) list
     \<Rightarrow> validator klass list \<Rightarrow> state \<Rightarrow> pyerr + state" where
  "add_matching wrap self validator_name' field_name accessibility multi field_data [] s = Inr s"
| "add_matching wrap self validator_name' field_name accessibility multi field_data (validator_cls # rest) s =
     (if VStr (validator_name (klass_name validator_cls)) = validator_name' then
        (case add_field wrap self (klass_name validator_cls) field_name accessibility multi field_data s of
           Inl e \<Rightarrow> Inl e
         | Inr (field, s') \<Rightarrow>
             add_matching wrap self validator_name' field_name accessibility multi field_data rest s')
      else add_matching wrap self validator_name' field_name accessibility multi field_data rest s)"

definition popped_in_place :: "nat \<Rightarrow> string \<Rightarrow> (string \<times> pyval) list \<Rightarrow> state \<Rightarrow> state" where
  "popped_in_place schema field_name remaining s =
     (case f_value (fheap s ! schema) of
        VDict kvs \<Rightarrow>
          (if map_of kvs field_name = None then s
           else set_value schema (VDict (dict_set field_name (VDict remaining) kvs)) s)
      | _ \<Rightarrow> s)"

definition readd_field :: "wrapper \<Rightarrow> nat \<Rightarrow> nat \<Rightarrow> string \<Rightarrow> pyval \<Rightarrow> state \<Rightarrow> pyerr + state" where
  "readd_field wrap self schema field_name field_data s =
     (case field_data of
        VDict fd \<Rightarrow>
          andthen (dict_pop ''validator'' fd) (\<lambda>(validator_name', fd1).
          andthen (dict_pop ''accessibility'' fd1) (\<lambda>(acc, fd2).
          andthen (Accessibility_of acc) (\<lambda>accessibility.
          andthen (dict_pop ''multi'' fd2) (\<lambda>(multi, fd3).
            add_matching wrap self validator_name' field_name accessibility multi fd3
              (all_subclasses FieldValidator_class) (popped_in_place schema field_name fd3 s)))))
      | VList xs \<Rightarrow> Inl TypeError
      | _ \<Rightarrow> Inl AttributeError)"

fun readd_fields :: "wrapper \<Rightarrow> nat \<Rightarrow> nat \<Rightarrow> (string \<times> pyval) list \<Rightarrow> state \<Rightarrow> pyerr + state" where
  "readd_fields wrap self schema [] s = Inr s"
| "readd_fields wrap self schema ((field_name, field_data) # rest) s =
     (case readd_field wrap self schema field_name field_data s of
        Inl e \<Rightarrow> Inl e
      | Inr s' \<Rightarrow> readd_fields wrap self schema rest s')"

text \<open>
  \<open>MetaNode.add_default_fields\<close>, in its three parts: the schema field, the fields the
  persisted schema describes, the kind tag and the initialised flag.
\<close>

definition add_schema_field :: "wrapper \<Rightarrow> nat \<Rightarrow> state \<Rightarrow> pyerr + state" where
  "add_schema_field wrap self s =
     andthen (add_field wrap self JsonValidator ''metanode_fields'' Private (VBool False) [] s)
       (\<lambda>(field, s1). Inr s1)"

definition add_persisted_fields :: "wrapper \<Rightarrow> nat \<Rightarrow> state \<Rightarrow> pyerr + state" where
  "add_persisted_fields wrap self s =
     andthen (field_named s self ''metanode_fields'') (\<lambda>schema.
     andthen (Field_get wrap schema s) (\<lambda>(d, s1).
       case d of
         VDict items \<Rightarrow> readd_fields wrap self schema items s1
       | _ \<Rightarrow> Inl AttributeError))"

definition add_tag_fields :: "wrapper \<Rightarrow> nat \<Rightarrow> state \<Rightarrow> pyerr + state" where
  "add_tag_fields wrap self s =
     andthen (add_field wrap self StringValidator ''metanode_type'' Private (VBool False) [] s) (\<lambda>(field, s1).
     andthen (field_named s1 self ''metanode_type'') (\<lambda>tag.
     andthen (metanode_at s1 self) (\<lambda>m.
     andthen (Field_set tag (VStr (mn_cls m)) s1) (\<lambda>s2.
     andthen (add_field wrap self BoolValidator ''is_initialized'' Private (VBool False) [] s2)
       (\<lambda>(field, s3). Inr s3)))))"

definition add_default_fields :: "wrapper \<Rightarrow> nat \<Rightarrow> state \<Rightarrow> pyerr + state" where
  "add_default_fields wrap self s =
     andthen (add_schema_field wrap self s) (\<lambda>s1.
     andthen (add_persisted_fields wrap self s1) (\<lambda>s2.
       add_tag_fields wrap self s2))"

fun read_all :: "wrapper \<Rightarrow> nat list \<Rightarrow> state \<Rightarrow> pyerr + state" where
  "read_all wrap [] s = Inr s"
| "read_all wrap (field # rest) s =
     (case Field_read wrap field s of Inl e \<Rightarrow> Inl e | Inr s' \<Rightarrow> read_all wrap rest s')"

definition read_fields :: "wrapper \<Rightarrow> nat \<Rightarrow> state \<Rightarrow> pyerr + state" where
  "read_fields wrap self s = andthen (MetaNode_fields s self) (\<lambda>fs. read_all wrap (map snd fs) s)"

fun write_all :: "nat list \<Rightarrow> state \<Rightarrow> pyerr + state" where
  "write_all [] s = Inr s"
| "write_all (field # rest) s =
     (case Field_write field s of Inl e \<Rightarrow> Inl e | Inr s' \<Rightarrow> write_all rest s')"

definition write_fields :: "nat \<Rightarrow> state \<Rightarrow> pyerr + state" where
  "write_fields self s = andthen (MetaNode_fields s self) (\<lambda>fs. write_all (map snd fs) s)"

text \<open>\<open>MetaNode.initialize\<close>: nothing but the record of the call.\<close>

definition initialize :: "nat \<Rightarrow> state \<Rightarrow> state" where
  "initialize self s = s\<lparr>init_calls := init_calls s @ [self]\<rparr>"

text \<open>
  \<open>MetaNode.__new__\<close>: the cached instance of the node's UUID, or a new object of the
  class the node's \<open>metanode_type\<close> names among \<open>cls\<close> and its subclasses.
\<close>

definition MetaNode_new :: "string klass \<Rightarrow> pyval \<Rightarrow> state \<Rightarrow> pyerr + (nat \<times> state)" where
  "MetaNode_new cls node s =
     (if \<not> is_text node then Inl TypeError
      else if \<not> objExists (maya s) node then Inl ValueError
      else
        andthen (get_mobject (maya s) node) (\<lambda>mobject.
        andthen (get_uuid (maya s) mobject) (\<lambda>uuid.
          case instances s uuid of
            Some instance \<Rightarrow> Inr (instance, s)
          | None \<Rightarrow>
              andthen (attributeQuery_exists (maya s) mobject ''metanode_type'') (\<lambda>ex.
              andthen (if ex then getAttr (maya s) mobject ''metanode_type''
                       else Inr (VStr (klass_name cls))) (\<lambda>stored_class_name.
                case (if stored_class_name = VStr (klass_name cls) then Some cls
                      else fold (\<lambda>subclass found.
                                   if stored_class_name = VStr (klass_name subclass) then Some subclass
                                   else found)
                             (all_subclasses cls) None) of
                  None \<Rightarrow> Inl Exception
                | Some class_to_instantiate \<Rightarrow>
                    Inr (length (mheap s),
                         s\<lparr>mheap := mheap s @
                              [\<lparr>mn_cls = klass_name class_to_instantiate,
                                mn_mobject = None, mn_fields = None\<rparr>]\<rparr>))))))"

text \<open>\<open>MetaNode.__init__\<close>.\<close>

definition MetaNode_init :: "wrapper \<Rightarrow> nat \<Rightarrow> pyval \<Rightarrow> state \<Rightarrow> pyerr + state" where
  "MetaNode_init wrap self node s =
     andthen (get_mobject (maya s) node) (\<lambda>mobject.
     andthen (add_default_fields wrap self
                (s\<lparr>mheap := (mheap s)[self := (mheap s ! self)\<lparr>mn_mobject := Some mobject,
                                                                mn_fields := Some []\<rparr>]\<rparr>)) (\<lambda>s1.
     andthen (MetaNode_uuid s1 self) (\<lambda>uuid.
     andthen (if instances s1 uuid = None then
                andthen (read_fields wrap self s1) (\<lambda>s2.
                andthen (MetaNode_uuid s2 self) (\<lambda>uuid'.
                  Inr (s2\<lparr>instances := (instances s2)(uuid' \<mapsto> self)\<rparr>)))
              else Inr s1) (\<lambda>s3.
     andthen (field_named s3 self ''is_initialized'') (\<lambda>flag.
     andthen (Field_get wrap flag s3) (\<lambda>(initialized, s4).
       if \<not> truthy initialized then
         andthen (field_named (initialize self s4) self ''is_initialized'') (\<lambda>flag'.
           Field_set flag' (VBool True) (initialize self s4))
       else Inr s4))))))"

text \<open>
  The call \<open>cls(node)\<close>: \<open>__new__\<close>, then \<open>__init__\<close> on the result when it is an instance
  of \<open>cls\<close>, also when \<open>__new__\<close> returned the cached instance.
\<close>

definition isinstance :: "state \<Rightarrow> nat \<Rightarrow> string klass \<Rightarrow> bool" where
  "isinstance s obj cls =
     (obj < length (mheap s) \<and> mn_cls (mheap s ! obj) \<in> set (map klass_name (cls # all_subclasses cls)))"

definition MetaNode_body :: "wrapper \<Rightarrow> wrapper" where
  "MetaNode_body wrap cls node s =
     andthen (MetaNode_new cls node s) (\<lambda>(obj, s1).
       if isinstance s1 obj cls then andthen (MetaNode_init wrap obj node s1) (\<lambda>s2. Inr (obj, s2))
       else Inr (obj, s1))"

text \<open>
  A field of kind \<open>MetaNodeValidator\<close> calls \<open>MetaNode(...)\<close> while a MetaNode is being
  built. The first argument bounds the depth of these nested calls, as the interpreter's
  recursion limit does: past it the call raises RuntimeError.
\<close>

primrec MetaNode_call :: "nat \<Rightarrow> wrapper" where
  "MetaNode_call 0 = (\<lambda>cls node s. Inl RuntimeError)"
| "MetaNode_call (Suc depth) = MetaNode_body (MetaNode_call depth)"

text \<open>\<open>MetaNode.from_uuid\<close>: it calls \<open>__new__\<close> alone.\<close>

definition from_uuid :: "string klass \<Rightarrow> string \<Rightarrow> state \<Rightarrow> pyerr + (nat \<times> state)" where
  "from_uuid cls uuid s =
     (case ls (maya s) uuid of
        [] \<Rightarrow> Inl ValueError
      | node # _ \<Rightarrow> MetaNode_new cls (VStr node) s)"

text \<open>\<open>MetaNode.new\<close>: \<open>cls(cmds.createNode(...))\<close>; the scene gives the node its name and UUID.\<close>

definition MetaNode_new_node :: "nat \<Rightarrow> string klass \<Rightarrow> string \<Rightarrow> string \<Rightarrow> state \<Rightarrow> pyerr + (nat \<times> state)" where
  "MetaNode_new_node depth cls name uuid s =
     MetaNode_call depth cls (VStr name) (s\<lparr>maya := createNode (maya s) name uuid\<rparr>)"

section \<open>Notions the properties use\<close>

text \<open>The MetaNode at \<open>self\<close> has a field declared under \<open>name\<close>.\<close>

definition has_field :: "state \<Rightarrow> nat \<Rightarrow> string \<Rightarrow> bool" where
  "has_field s self name = (case MetaNode_getattr s self name of Inr (Some field) \<Rightarrow> True | _ \<Rightarrow> False)"

text \<open>Two states with the same objects, cache, classes and calls of \<open>initialize\<close>: only the scene and the log may differ.\<close>

definition same_objects :: "state \<Rightarrow> state \<Rightarrow> bool" where
  "same_objects s s' \<longleftrightarrow>
     mheap s' = mheap s \<and> fheap s' = fheap s \<and> instances s' = instances s
     \<and> init_calls s' = init_calls s \<and> classes s' = classes s"

text \<open>The descriptor \<open>add_field\<close> stores for a private single field without further arguments.\<close>

definition descriptor :: "validator \<Rightarrow> pyval" where
  "descriptor v = VDict [(''validator'', VStr (validator_name v)), (''multi'', VBool False),
                         (''accessibility'', VInt 1)]"



section \<open>Example states\<close>

definition demo_attr :: "attr_type \<Rightarrow> pyval \<Rightarrow> attr" where
  "demo_attr t v = \<lparr>a_type = t, a_multi = False, a_value = v, a_elems = [],
                    a_locked = False, a_connected = False, a_channelBox = False\<rparr>"

text \<open>
  A transform node wrapped by a MetaNode that has a private integer field \<open>my_count\<close>
  and a public integer field \<open>my_field\<close>, both at their default.
\<close>

definition demo_state :: state where
  "demo_state =
     \<lparr>maya = [\<lparr>n_name = ''transform1'', n_uuid = ''U1'', n_alive = True,
               n_dag = True, n_parent = None,
               n_attrs = [(''my_count'', demo_attr TLong (VInt 0)),
                          (''my_field'', demo_attr TLong (VInt 0))]\<rparr>],
      mheap = [\<lparr>mn_cls = ''MetaNode'', mn_mobject = Some 0,
                mn_fields = Some [(''my_count'', 0), (''my_field'', 1)]\<rparr>],
      fheap = [\<lparr>f_cls = Field, f_validator = IntValidator,
                f_create_kwargs = [(''attributeType'', ''long'')],
                f_metanode = 0, f_name = ''my_count'', f_value = VInt 0\<rparr>,
               \<lparr>f_cls = PublicField, f_validator = IntValidator,
                f_create_kwargs = [(''attributeType'', ''long'')],
                f_metanode = 0, f_name = ''my_field'', f_value = VInt 0\<rparr>],
      instances = [''U1'' \<mapsto> 0],
      classes = Klass ''MetaNode'' [],
      warnings = [],
      init_calls = []\<rparr>"

text \<open>
  The class \<open>MetaNode\<close> without subclasses, and a new scene holding one transform node
  that was never wrapped.
\<close>

definition MetaNode_class :: "string klass" where
  "MetaNode_class = Klass ''MetaNode'' []"

definition start :: state where
  "start = \<lparr>maya = createNode [] ''transform1'' ''U1'', mheap = [], fheap = [],
            instances = Map.empty, classes = MetaNode_class, warnings = [], init_calls = []\<rparr>"


text \<open>
  The scene a process leaves behind after \<open>MetaNode(node)\<close>,
  \<open>add_field(IntValidator, "count", Accessibility.private)\<close>, \<open>count.set(10)\<close> and
  \<open>write_fields()\<close>, seen by a new process: no object, an empty cache. The schema blob
  lists its keys in the order in which CPython 2.7 iterates a dict with these four keys.
\<close>

definition persisted :: state where
  "persisted =
     \<lparr>maya = [\<lparr>n_name = ''transform1'', n_uuid = ''U1'', n_alive = True,
               n_dag = True, n_parent = None,
               n_attrs =
                 [(''metanode_fields'',
                   (demo_attr TString
                      (VJsonText (VDict [(''count'', descriptor IntValidator),
                                         (''is_initialized'', descriptor BoolValidator),
                                         (''metanode_fields'', descriptor JsonValidator),
                                         (''metanode_type'', descriptor StringValidator)])))
                   \<lparr>a_locked := True\<rparr>),
                  (''metanode_type'', (demo_attr TString (VStr ''MetaNode''))\<lparr>a_locked := True\<rparr>),
                  (''is_initialized'', (demo_attr TBool (VBool True))\<lparr>a_locked := True\<rparr>),
                  (''count'', (demo_attr TLong (VInt 10))\<lparr>a_locked := True\<rparr>)]\<rparr>],
      mheap = [], fheap = [], instances = Map.empty, classes = MetaNode_class,
      warnings = [], init_calls = []\<rparr>"

text \<open>The state \<open>__init__\<close> calls \<open>add_default_fields\<close> in, for a new object on this scene.\<close>

definition persisted_blank :: state where
  "persisted_blank =
     persisted\<lparr>mheap := [\<lparr>mn_cls = ''MetaNode'', mn_mobject = Some 0, mn_fields = Some []\<rparr>]\<rparr>"



text \<open>
  The state after \<open>MetaNode("transform1")\<close> on the new scene, and the same state after
  the user renamed the node and overwrote its stored kind tag.
\<close>

definition wrapped_once :: state where
  "wrapped_once =
     (case MetaNode_call 1 MetaNode_class (VStr ''transform1'') start of
        Inl e \<Rightarrow> start
      | Inr (a, s) \<Rightarrow> s)"

definition mutated :: state where
  "mutated = wrapped_once\<lparr>maya :=
     rename (put_attr (maya wrapped_once) 0 ''metanode_type'' (demo_attr TString (VStr ''SomethingElse'')))
       0 ''renamed''\<rparr>"


text \<open>The exception a run ends with, if any.\<close>

definition raises :: "pyerr + 'a \<Rightarrow> pyerr option" where
  "raises r = (case r of Inl e \<Rightarrow> Some e | Inr v \<Rightarrow> None)"

section \<open>Properties\<close>

subsection \<open>The store under a write\<close>

lemma map_of_dict_set: "map_of (dict_set k v d) k' = (if k' = k then Some v else map_of d k')"
  by (induction d) auto





lemma field_at_maya [simp]: "field_at (s\<lparr>maya := sc\<rparr>) fa = field_at s fa"
  by (simp add: field_at_def)

lemma field_at_warnings [simp]: "field_at (s\<lparr>warnings := w\<rparr>) fa = field_at s fa"
  by (simp add: field_at_def)

subsection \<open>Sequencing, and what the field operations leave alone\<close>

lemma andthen_Inr: "andthen r f = Inr v \<Longrightarrow> \<exists>x. r = Inr x \<and> f x = Inr v"
  by (cases r) (auto simp: andthen_def)

lemma andthenE:
  assumes "andthen r f = Inr v"
  obtains x where "r = Inr x" and "f x = Inr v"
  using assms by (cases r) (auto simp: andthen_def)

lemma mheap_set_value [simp]: "mheap (set_value fa v s) = mheap s"
  by (simp add: set_value_def)

lemma from_attribute_plain:
  "v \<noteq> MetaNodeValidator \<Longrightarrow> from_attribute wrap v raw s = Inr (val, s') \<Longrightarrow> s' = s"
  by (cases v) (auto simp: from_attribute_def andthen_def split: option.splits sum.splits)

lemma Field_read_single_mheap:
  assumes "Field_read wrap fa s = Inr s'" "field_at s fa = Inr f" "f_cls f \<noteq> MultiField"
    "f_validator f \<noteq> MetaNodeValidator"
  shows "mheap s' = mheap s"
  using assms
  by (auto simp: Field_read_def andthen_def split: sum.splits if_splits prod.splits
           dest!: from_attribute_plain)

lemma create_attribute_mheap: "create_attribute fa s = Inr (b, s') \<Longrightarrow> mheap s' = mheap s \<and> fheap s' = fheap s"
  by (auto simp: create_attribute_def andthen_def split: sum.splits if_splits prod.splits)

lemma Field_init_mheap:
  assumes "Field_init wrap fcls v self name kw s = Inr (fa, s')" "fcls \<noteq> MultiField" "v \<noteq> MetaNodeValidator"
  shows "mheap s' = mheap s"
proof -
  from assms(1) obtain ckw s1 s2 created where
    s1: "s1 = s\<lparr>fheap := fheap s @
            [\<lparr>f_cls = fcls, f_validator = v, f_create_kwargs = ckw, f_metanode = self, f_name = name,
              f_value = (if (if fcls = MultiField \<and> (case map_of kw ''default_value'' of None \<Rightarrow> VNone | Some d \<Rightarrow> d) = VNone then VList [] else (case map_of kw ''default_value'' of None \<Rightarrow> VNone | Some d \<Rightarrow> d)) \<noteq> VNone
                         then (if fcls = MultiField \<and> (case map_of kw ''default_value'' of None \<Rightarrow> VNone | Some d \<Rightarrow> d) = VNone then VList [] else (case map_of kw ''default_value'' of None \<Rightarrow> VNone | Some d \<Rightarrow> d))
                         else get_default_value v)\<rparr>]\<rparr>"
    and c: "create_attribute (length (fheap s)) s1 = Inr (created, s2)"
    and r: "Field_read wrap (length (fheap s)) s2 = Inr s'"
    by (auto simp: Field_init_def Let_def andthen_def split: if_splits sum.splits prod.splits)
  from c have m2: "mheap s2 = mheap s1" "fheap s2 = fheap s1" using create_attribute_mheap by blast+
  have f: "field_at s2 (length (fheap s)) = Inr (fheap s1 ! length (fheap s))"
    using m2 s1 by (simp add: field_at_def)
  have "mheap s' = mheap s2"
    using Field_read_single_mheap [OF r f] assms(2,3) s1 by simp
  with m2 s1 show ?thesis by simp
qed



lemma protect_before_same: "protect_before fa s = Inr s' \<Longrightarrow> same_objects s s'"
  by (auto simp: protect_before_def andthen_def same_objects_def split: sum.splits if_splits prod.splits)

lemma protect_after_same: "protect_after fa s = Inr s' \<Longrightarrow> same_objects s s'"
  by (auto simp: protect_after_def andthen_def same_objects_def split: sum.splits if_splits prod.splits)

lemma Field_write_single_same: "Field_write_single fa s = Inr s' \<Longrightarrow> same_objects s s'"
  by (auto simp: Field_write_single_def andthen_def same_objects_def
           split: sum.splits if_splits prod.splits
           dest!: protect_before_same protect_after_same)

lemma lock_all_elements_same: "lock_all_elements b fa s = Inr s' \<Longrightarrow> same_objects s s'"
  by (auto simp: lock_all_elements_def andthen_def same_objects_def split: sum.splits prod.splits)

lemma clear_maya_attribute_same: "clear_maya_attribute fa s = Inr s' \<Longrightarrow> same_objects s s'"
  by (auto simp: clear_maya_attribute_def andthen_def same_objects_def
           split: sum.splits prod.splits dest!: lock_all_elements_same)

lemma write_elements_same: "write_elements fa v i xs s = Inr s' \<Longrightarrow> same_objects s s'"
proof (induction xs arbitrary: i s)
  case Nil
  then show ?case by (simp add: same_objects_def)
next
  case (Cons x xs)
  from Cons.prems obtain sc where "write_elements fa v (Suc i) xs (s\<lparr>maya := sc\<rparr>) = Inr s'"
    by (auto split: sum.splits prod.splits)
  from Cons.IH [OF this] show ?case by (simp add: same_objects_def)
qed

lemma MultiField_write_same: "MultiField_write fa s = Inr s' \<Longrightarrow> same_objects s s'"
  by (auto simp: MultiField_write_def andthen_def same_objects_def split: sum.splits
           dest!: lock_all_elements_same clear_maya_attribute_same write_elements_same)

lemma Field_write_same: "Field_write fa s = Inr s' \<Longrightarrow> same_objects s s'"
  by (auto simp: Field_write_def andthen_def split: sum.splits if_splits
           dest: MultiField_write_same Field_write_single_same)

lemma Field_set_mheap: "Field_set fa v s = Inr s' \<Longrightarrow> mheap s' = mheap s"
  by (auto simp: Field_set_def andthen_def same_objects_def split: sum.splits if_splits dest!: Field_write_same)

lemma Field_get_VDict: "Field_get wrap fa s = Inr (VDict d, s') \<Longrightarrow> s' = s"
  by (auto simp: Field_get_def andthen_def split: sum.splits if_splits)

lemma has_field_iff:
  "has_field s self name \<longleftrightarrow>
     (self < length (mheap s) \<and> (\<exists>fs fa. mn_fields (mheap s ! self) = Some fs \<and> map_of fs name = Some fa))"
  by (auto simp: has_field_def MetaNode_getattr_def MetaNode_fields_def metanode_at_def andthen_def
           split: sum.splits option.splits)

lemma add_field_plain:
  assumes af: "add_field wrap self v name Private (VBool False) kw s = Inr (fa, s')"
    and v: "v \<noteq> MetaNodeValidator"
  shows "has_field s' self name \<and> has_field s' self ''metanode_fields''
       \<and> (\<forall>n. has_field s self n \<longrightarrow> has_field s' self n)"
proof -
  from af obtain s1 fs schema d s3 where
    fi: "Field_init wrap Field v self name kw s = Inr (fa, s1)"
    and fs: "MetaNode_fields s1 self = Inr fs"
    and sch: "field_named (s1\<lparr>mheap := (mheap s1)[self := (mheap s1 ! self)\<lparr>mn_fields := Some (dict_set name fa fs)\<rparr>]\<rparr>)
                self ''metanode_fields'' = Inr schema"
    and g: "Field_get wrap schema (s1\<lparr>mheap := (mheap s1)[self := (mheap s1 ! self)\<lparr>mn_fields := Some (dict_set name fa fs)\<rparr>]\<rparr>)
              = Inr (VDict d, s3)"
    and s': "mheap s' = mheap s3"
    by (auto simp: add_field_def get_field_class_def Let_def andthen_def
             split: if_splits sum.splits prod.splits pyval.splits)
  let ?s2 = "s1\<lparr>mheap := (mheap s1)[self := (mheap s1 ! self)\<lparr>mn_fields := Some (dict_set name fa fs)\<rparr>]\<rparr>"
  have m1: "mheap s1 = mheap s" using Field_init_mheap [OF fi] v by simp
  have s3: "s3 = ?s2" using Field_get_VDict [OF g] .
  from fs have len: "self < length (mheap s)" and fs0: "mn_fields (mheap s ! self) = Some fs"
    using m1 by (auto simp: MetaNode_fields_def metanode_at_def andthen_def split: if_splits option.splits)
  have final: "mheap s' = (mheap s)[self := (mheap s ! self)\<lparr>mn_fields := Some (dict_set name fa fs)\<rparr>]"
    using s' s3 m1 by simp
  have a: "has_field s' self name"
    using final len by (simp add: has_field_iff map_of_dict_set)
  from sch have "has_field ?s2 self ''metanode_fields''"
    by (auto simp: has_field_def field_named_def andthen_def split: sum.splits option.splits)
  then have b: "has_field s' self ''metanode_fields''"
    using final m1 len by (simp add: has_field_iff)
  have c: "\<forall>n. has_field s self n \<longrightarrow> has_field s' self n"
    using final len fs0 by (auto simp: has_field_iff map_of_dict_set)
  from a b c show ?thesis by blast
qed

subsection \<open>The identity cache\<close>




text \<open>
  The cache at work on the new scene: \<open>MetaNode("transform1")\<close> builds an instance; its
  \<open>path()\<close> is \<open>|transform1\<close>, and \<open>MetaNode(m.path())\<close> returns the same instance. After
  the user renamed the node and overwrote its kind tag, \<open>MetaNode("renamed")\<close> still
  returns that instance.
\<close>

lemma wrap_by_path_same_instance:
  "(case MetaNode_call 1 MetaNode_class (VStr ''transform1'') start of
      Inl e \<Rightarrow> False
    | Inr (a1, s1) \<Rightarrow>
        MetaNode_path s1 a1 = Inr ''|transform1''
        \<and> (case MetaNode_call 1 MetaNode_class (VStr ''|transform1'') s1 of
             Inl e \<Rightarrow> False
           | Inr (a2, s2) \<Rightarrow> a2 = a1)
        \<and> (case MetaNode_call 1 MetaNode_class (VStr ''renamed'') mutated of
             Inl e \<Rightarrow> False
           | Inr (a3, s3) \<Rightarrow> a3 = a1))"
  by code_simp

subsection \<open>The claims\<close>

text \<open>
  C6. Write-back buffering: on a private single field, \<open>set(v)\<close> succeeds, changes the
  value held in memory only and leaves the whole scene, so also the field's slot, as it
  was; \<open>get()\<close> called before any \<open>write()\<close> returns \<open>v\<close> and changes nothing.
\<close>

theorem private_set_is_buffered:
  assumes "field_at s fa = Inr f" and "f_cls f = Field"
  shows "Field_set fa v s = Inr (set_value fa v s)
       \<and> maya (set_value fa v s) = maya s
       \<and> Field_get wrap fa (set_value fa v s) = Inr (v, set_value fa v s)"
  using assms
  by (auto simp: Field_set_def Field_get_def field_at_def andthen_def set_value_def split: if_splits)

theorem private_set_is_buffered_witness:
  "Field_set 0 (VInt 10) demo_state = Inr (set_value 0 (VInt 10) demo_state)
   \<and> maya (set_value 0 (VInt 10) demo_state) = maya demo_state
   \<and> Field_get (\<lambda>cls node s. Inl RuntimeError) 0 (set_value 0 (VInt 10) demo_state)
       = Inr (VInt 10, set_value 0 (VInt 10) demo_state)
   \<and> getAttr (maya (set_value 0 (VInt 10) demo_state)) 0 ''my_count'' = Inr (VInt 0)"
proof -
  have f: "field_at demo_state 0 = Inr (fheap demo_state ! 0)"
    by (simp add: field_at_def demo_state_def)
  have c: "f_cls (fheap demo_state ! 0) = Field"
    by (simp add: demo_state_def)
  have g: "getAttr (maya demo_state) 0 ''my_count'' = Inr (VInt 0)"
    by (simp add: getAttr_def attr_at_def node_at_def demo_state_def demo_attr_def)
  from private_set_is_buffered [OF f c, of "VInt 10" "\<lambda>cls node s. Inl RuntimeError"] g show ?thesis
    by simp
qed

text \<open>
  C5. One-time initialisation. The code does not keep it: \<open>__init__\<close> ends with
  \<open>self.is_initialized.set(True)\<close>, which on a private field changes the value in memory
  only, and a second \<open>MetaNode(node)\<close> in the same process runs \<open>__init__\<close> again on the
  cached instance, builds the fields anew from the scene, reads the flag as false and
  calls \<open>initialize()\<close> a second time. Here: a new transform node wrapped twice.
\<close>

theorem initialize_runs_on_every_wrap:
  "(case andthen (MetaNode_call 1 MetaNode_class (VStr ''transform1'') start)
           (\<lambda>(a, s). MetaNode_call 1 MetaNode_class (VStr ''transform1'') s) of
      Inl e \<Rightarrow> False
    | Inr (a, s) \<Rightarrow> init_calls s = [a, a])"
  by code_simp

text \<open>
  C4. Public-field freshness. The code does not return the value: \<open>PublicField.get\<close>
  returns what \<open>read()\<close> returns, which is \<open>None\<close>. Here: a public integer field set to 10;
  the slot holds 10, the value in memory is 10, and \<open>get()\<close> returns \<open>None\<close>.
\<close>

theorem public_get_returns_None:
  "(case andthen (MetaNode_call 1 MetaNode_class (VStr ''transform1'') start) (\<lambda>(a, s).
         andthen (add_field (MetaNode_call 1) a IntValidator ''my_field'' Public (VBool False) [] s) (\<lambda>(f, s1).
         andthen (Field_set f (VInt 10) s1) (\<lambda>s2.
         andthen (Field_get (MetaNode_call 1) f s2) (\<lambda>(v, s3).
           Inr (v, getAttr (maya s3) 0 ''my_field'', f_value (fheap s3 ! f)))))) of
      Inl e \<Rightarrow> False
    | Inr r \<Rightarrow> r = (VNone, Inr (VInt 10), VInt 10))"
  by code_simp

text \<open>
  C3. Encode failure. \<open>Field.write\<close> catches it; \<open>MultiField.write\<close> has no \<open>try\<close>: on a
  private multi integer field holding \<open>[7, "abc"]\<close>, \<open>write()\<close> raises ValueError, and so
  does \<open>write_fields()\<close>.
\<close>

theorem multi_write_raises_on_encode_failure:
  "(case andthen (MetaNode_call 1 MetaNode_class (VStr ''transform1'') start) (\<lambda>(a, s).
         andthen (add_field (MetaNode_call 1) a IntValidator ''indices'' Private (VBool True) [] s) (\<lambda>(f, s1).
         andthen (Field_set f (VList [VInt 7, VStr ''abc'']) s1) (\<lambda>s2.
           Inr (f_cls (fheap s2 ! f), raises (Field_write f s2), raises (write_fields a s2))))) of
      Inl e \<Rightarrow> False
    | Inr r \<Rightarrow> r = (MultiField, Some ValueError, Some ValueError))"
  by code_simp

text \<open>
  C10, as the code has it. \<open>__getattr__\<close> runs only when the normal lookup finds nothing,
  so a field declared under the name of a method cannot be reached by attribute access.
  Here a private integer field is declared under the name \<open>serialize\<close>: the field map
  holds it, and \<open>m.serialize\<close> is the method, not the Field.
\<close>

theorem declared_field_shadowed_by_method:
  "(case andthen (MetaNode_call 1 MetaNode_class (VStr ''transform1'') start) (\<lambda>(a, s).
          andthen (add_field (MetaNode_call 1) a IntValidator ''serialize'' Private (VBool False) [] s) (\<lambda>(f, s1).
            Inr (f, MetaNode_getattr s1 a ''serialize'', getattribute s1 a ''serialize''))) of
      Inl e \<Rightarrow> False
    | Inr (f, declared, got) \<Rightarrow> declared = Inr (Some f) \<and> got = Inr Member)"
  by code_simp

text \<open>
  The object \<open>MetaNode.from_uuid\<close> returns for a node no MetaNode was built for: \<open>__new__\<close>
  alone made it, \<open>__init__\<close> did not run, so it has no \<open>fields\<close> and is not in the cache;
  every attribute access that reaches \<open>__getattr__\<close> raises RuntimeError on it.
\<close>

theorem attribute_access_after_from_uuid:
  "(case from_uuid MetaNode_class ''U1'' start of
      Inl e \<Rightarrow> False
    | Inr (a, s) \<Rightarrow>
        instances s ''U1'' = None
        \<and> getattribute s a ''no_such_field'' = Inl RuntimeError
        \<and> getattribute s a ''fields'' = Inl RuntimeError)"
  by code_simp

text \<open>
  C10, amended: on a MetaNode that \<open>__init__\<close> has run on, access to a name that is no
  attribute of the instance or of its class returns the Field declared under that name,
  and \<open>None\<close> when no field is declared under it; it does not raise.
\<close>

theorem getattr_returns_field_or_None:
  assumes "metanode_at s a = Inr m" and "mn_fields m = Some fs"
    and "name \<notin> set (MetaNode_attributes @ object_attributes)"
    and "name \<noteq> ''mobject''" and "name \<noteq> ''fields''"
  shows "getattribute s a name
           = Inr (case map_of fs name of Some field \<Rightarrow> FieldObject field | None \<Rightarrow> NoneObject)"
  using assms
  by (simp add: getattribute_def MetaNode_getattr_def MetaNode_fields_def andthen_def
        split: option.splits)

theorem getattr_returns_field_or_None_witness:
  "getattribute demo_state 0 ''my_count'' = Inr (FieldObject 0)
   \<and> getattribute demo_state 0 ''no_such_field'' = Inr NoneObject"
proof -
  have m: "metanode_at demo_state 0 = Inr (mheap demo_state ! 0)"
    by (simp add: metanode_at_def demo_state_def)
  have fs: "mn_fields (mheap demo_state ! 0) = Some [(''my_count'', 0), (''my_field'', 1)]"
    by (simp add: demo_state_def)
  have n1: "''my_count'' \<notin> set (MetaNode_attributes @ object_attributes)"
    by (simp add: MetaNode_attributes_def object_attributes_def)
  have n2: "''no_such_field'' \<notin> set (MetaNode_attributes @ object_attributes)"
    by (simp add: MetaNode_attributes_def object_attributes_def)
  from getattr_returns_field_or_None [OF m fs n1] getattr_returns_field_or_None [OF m fs n2]
  show ?thesis by simp
qed




text \<open>
  \<open>MultiField.write\<close> makes no connection check: it removes every element with
  \<open>removeMultiInstance(..., b=True)\<close>, which breaks connections, and writes the elements
  anew. Here: a private multi integer field whose empty slot is driven, and which holds
  \<open>[1, 2]\<close>; after \<open>write()\<close> the slot has two elements and no connection.
\<close>

theorem multi_write_overwrites_driven_slot:
  "(case andthen (MetaNode_call 1 MetaNode_class (VStr ''transform1'') start) (\<lambda>(a, s).
         andthen (add_field (MetaNode_call 1) a IntValidator ''indices'' Private (VBool True) [] s) (\<lambda>(f, s1).
         andthen (Field_set f (VList [VInt 1, VInt 2]) (s1\<lparr>maya := connectAttr (maya s1) 0 ''indices''\<rparr>)) (\<lambda>s2.
         andthen (Field_write f s2) (\<lambda>s3.
           Inr ((listConnections (maya s2) 0 ''indices'', numElements (maya s2) 0 ''indices''),
                (listConnections (maya s3) 0 ''indices'', numElements (maya s3) 0 ''indices''),
                getAttr_element (maya s3) 0 ''indices'' 0, getAttr_element (maya s3) 0 ''indices'' 1))))) of
      Inl e \<Rightarrow> False
    | Inr r \<Rightarrow> r = ((Inr True, Inr 0), (Inr False, Inr 2), Inr (VInt 1), Inr (VInt 2)))"
  by code_simp

text \<open>
  C8, as the code has it. \<open>add_default_fields\<close> declares the schema field, then the
  fields the persisted schema describes, in the order of the dict, and only then the kind
  tag and the initialised flag. Here, on the scene \<open>persisted\<close>: the first descriptor the
  loop meets is that of the custom field \<open>count\<close>; when it is declared, neither
  \<open>metanode_type\<close> nor \<open>is_initialized\<close> is in the field map, nor after it.
\<close>

theorem custom_field_declared_before_reserved:
  "(case andthen (add_schema_field (MetaNode_call 1) 0 persisted_blank) (\<lambda>s1.
         andthen (field_named s1 0 ''metanode_fields'') (\<lambda>schema.
         andthen (Field_get (MetaNode_call 1) schema s1) (\<lambda>(d, s2).
           case d of
             VDict ((field_name, field_data) # rest) \<Rightarrow>
               andthen (readd_field (MetaNode_call 1) 0 schema field_name field_data s2) (\<lambda>s3.
                 Inr (field_name,
                      (has_field s2 0 ''metanode_type'', has_field s2 0 ''is_initialized''),
                      has_field s3 0 ''count'',
                      (has_field s3 0 ''metanode_type'', has_field s3 0 ''is_initialized'')))
           | _ \<Rightarrow> Inl Exception))) of
      Inl e \<Rightarrow> False
    | Inr r \<Rightarrow> r = (''count'', (False, False), True, (False, False)))"
  by code_simp

text \<open>
  C8, amended: when \<open>add_default_fields\<close> returns, so before any field that a subclass
  or a caller declares afterwards, the three reserved fields are in the field map.
\<close>

theorem reserved_fields_after_defaults:
  assumes "add_default_fields wrap self s = Inr s'"
  shows "has_field s' self ''metanode_fields'' \<and> has_field s' self ''metanode_type''
       \<and> has_field s' self ''is_initialized''"
proof -
  from assms obtain s2 where t: "add_tag_fields wrap self s2 = Inr s'"
    by (auto simp: add_default_fields_def andthen_def split: sum.splits)
  from t obtain p1 where a1': "add_field wrap self StringValidator ''metanode_type'' Private (VBool False) [] s2 = Inr p1"
    and r1: "(case p1 of (field, s1) \<Rightarrow>
               andthen (field_named s1 self ''metanode_type'') (\<lambda>tag.
               andthen (metanode_at s1 self) (\<lambda>m.
               andthen (Field_set tag (VStr (mn_cls m)) s1) (\<lambda>s2.
               andthen (add_field wrap self BoolValidator ''is_initialized'' Private (VBool False) [] s2)
                 (\<lambda>(field, s3). Inr s3))))) = Inr s'"
    unfolding add_tag_fields_def by (blast dest: andthen_Inr)
  obtain f1 s3 where p1: "p1 = (f1, s3)" by (cases p1)
  from r1 p1 obtain tag where
    r2: "andthen (metanode_at s3 self) (\<lambda>m.
         andthen (Field_set tag (VStr (mn_cls m)) s3) (\<lambda>s2.
         andthen (add_field wrap self BoolValidator ''is_initialized'' Private (VBool False) [] s2)
           (\<lambda>(field, s3). Inr s3))) = Inr s'"
    by (auto elim: andthenE)
  from r2 obtain m :: metanode where
    r3: "andthen (Field_set tag (VStr (mn_cls m)) s3) (\<lambda>s2.
         andthen (add_field wrap self BoolValidator ''is_initialized'' Private (VBool False) [] s2)
           (\<lambda>(field, s3). Inr s3)) = Inr s'"
    by (rule andthenE)
  from r3 obtain s4 where
    st: "Field_set tag (VStr (mn_cls m)) s3 = Inr s4"
    and r4: "andthen (add_field wrap self BoolValidator ''is_initialized'' Private (VBool False) [] s4)
           (\<lambda>(field, s3). Inr s3) = Inr s'"
    by (rule andthenE)
  from r4 obtain f2 where
    a2: "add_field wrap self BoolValidator ''is_initialized'' Private (VBool False) [] s4 = Inr (f2, s')"
    by (auto elim!: andthenE)
  from add_field_plain [OF a1' [unfolded p1]] have h3: "has_field s3 self ''metanode_type''" by simp
  have "has_field s4 self ''metanode_type''"
    using h3 Field_set_mheap [OF st] by (simp add: has_field_iff)
  with add_field_plain [OF a2] show ?thesis by simp
qed

theorem reserved_fields_after_defaults_witness:
  "(case add_default_fields (MetaNode_call 1) 0 persisted_blank of
      Inl e \<Rightarrow> False
    | Inr s' \<Rightarrow> has_field s' 0 ''metanode_fields'' \<and> has_field s' 0 ''metanode_type''
                \<and> has_field s' 0 ''is_initialized'')"
proof (cases "add_default_fields (MetaNode_call 1) 0 persisted_blank")
  case (Inl e)
  moreover have "raises (add_default_fields (MetaNode_call 1) 0 persisted_blank) = None"
    by code_simp
  ultimately show ?thesis by (simp add: raises_def)
next
  case (Inr s')
  from reserved_fields_after_defaults [OF Inr] Inr show ?thesis by simp
qed





text \<open>
  C2. Identity. The code does not keep it. On a cache hit \<open>__new__\<close> returns the cached
  instance, and Python then runs \<open>__init__\<close> on it again, which reads the node's schema
  anew. Here \<open>MetaNode("transform1")\<close> returns an instance and registers it under the
  node's UUID; the user then overwrites the node's string attribute \<open>metanode_fields\<close>
  by a text that is no JSON; the second \<open>MetaNode("transform1")\<close> raises ValueError
  instead of returning the instance. And \<open>MetaNode.from_uuid\<close>, called twice for a node no
  MetaNode was built for, returns two objects and registers none.
\<close>

theorem second_wrap_raises_after_external_mutation:
  "(case MetaNode_call 1 MetaNode_class (VStr ''transform1'') start of
      Inl e \<Rightarrow> False
    | Inr (a1, s1) \<Rightarrow>
        instances s1 ''U1'' = Some a1
        \<and> raises (MetaNode_call 1 MetaNode_class (VStr ''transform1'')
                    (s1\<lparr>maya := put_attr (maya s1) 0 ''metanode_fields''
                                  (demo_attr TString (VStr ''garbage''))\<rparr>)) = Some ValueError)
   \<and> (case from_uuid MetaNode_class ''U1'' start of
        Inl e \<Rightarrow> False
      | Inr (a1, s1) \<Rightarrow>
          (case from_uuid MetaNode_class ''U1'' s1 of
             Inl e \<Rightarrow> False
           | Inr (a2, s2) \<Rightarrow> a1 = 0 \<and> a2 = 1 \<and> instances s2 ''U1'' = None))"
  by code_simp

end
